theory Spec2Isabelle
  imports Main
begin

section \<open>The Gemini response generator of \<open>backend/ai_generator.py\<close>\<close>

text \<open>
  A shallow embedding of the class \<open>AIGenerator\<close>. Python strings are byte lists (UTF-8),
  exceptions are values of the type \<open>error\<close> (\<open>Inl\<close> of a sum is a raised exception), and
  the two collaborators, the Gemini client and the tool manager, are parameters: functions
  that read and update an environment of an arbitrary type \<open>'w\<close> and either raise or return.
  The constructor of function declarations of the library is a parameter too.
\<close>

subsection \<open>Python values, exceptions and truthiness\<close>

datatype jvalue =
    JNone
  | JBool bool
  | JInt int
  | JStr string
  | JList "jvalue list"
  | JDict "(string \<times> jvalue) list"

type_synonym pydict = "(string \<times> jvalue) list"

datatype error =
    KeyError string
  | TypeError
  | Raised string

text \<open>
  \<open>KeyError k\<close> is raised by \<open>d[k]\<close> on a dict without the key \<open>k\<close>, \<open>TypeError\<close> by
  \<open>**None\<close> and by iterating \<open>None\<close>; \<open>Raised\<close> stands for the exceptions of the
  collaborators (which may as well raise the other two).
\<close>

fun truthy :: "'a list option \<Rightarrow> bool" where
  "truthy None = False"
| "truthy (Some xs) = (xs \<noteq> [])"

text \<open>
  \<open>truthy\<close> is Python's truth value of an optional string or an optional list: \<open>None\<close>,
  the empty string and the empty list are false.
\<close>

definition getitem :: "pydict \<Rightarrow> string \<Rightarrow> error + jvalue" where
  "getitem d k = (case map_of d k of None \<Rightarrow> Inl (KeyError k) | Some v \<Rightarrow> Inr v)"

subsection \<open>The types of \<open>google.genai\<close> that the class uses\<close>

text \<open>
  The classes of the library that the source constructs and reads, with the fields it
  uses, as plain data: a function call (\<open>args\<close> may be \<open>None\<close>), a part (\<open>Part(text=...)\<close>,
  a function call of the model, \<open>Part.from_function_response(name=..., response=...)\<close>), a
  content, a function declaration, a tool and the generation config. A function declaration
  is the library's object, seen through its three fields; how the library builds it from
  the values it is given is the parameter \<open>FunctionDeclaration\<close> below.
\<close>

record function_call =
  name :: string
  args :: "pydict option"

datatype part =
    Part_text string
  | Part_function_call function_call
  | Part_function_response string pydict

record content =
  role :: string
  parts :: "part list"

datatype function_declaration =
  Declaration (decl_name: jvalue) (decl_description: jvalue) (decl_parameters: jvalue)

datatype tool = Tool (function_declarations: "function_declaration list")

record generate_content_config =
  system_instruction :: string
  temperature :: int
  max_output_tokens :: int
  tools :: "tool list option"

text \<open>Modelled from the spec: the response type of the provider,
  \<open>GenerateContentResponse\<close> of the library \<open>google.genai\<close>, is not part of the repository.
  Section 6 of the specification gives it three components: an optional text, an optional
  list of tool-call requests and the model's turn, to be appended verbatim to the history.
  The field \<open>candidate_content\<close> is what the source reads as
  \<open>response.candidates[0].content\<close>; the source reads the other two as \<open>response.text\<close>
  and \<open>response.function_calls\<close>.
\<close>

record response =
  "text" :: "string option"
  function_calls :: "function_call list option"
  candidate_content :: content

text \<open>
  The constructor \<open>types.FunctionDeclaration(name=..., description=..., parameters=...)\<close>
  belongs to the library and is not part of the repository: it is a parameter. It gets
  the three values of a tool definition and either raises (the library validates them) or
  returns a declaration, which need not hold the values as they were given (the library
  normalises the schema).
\<close>

record genai_types =
  FunctionDeclaration :: "jvalue \<Rightarrow> jvalue \<Rightarrow> jvalue \<Rightarrow> error + function_declaration"

subsection \<open>The collaborators and the trace of their calls\<close>

text \<open>
  The provider client and the tool manager act on an environment of type \<open>'w\<close>. A tool
  manager is an object of a class that is not part of the repository: \<open>tool_manager_bool\<close>
  is its truth value (what \<open>bool(tool_manager)\<close> gives; true unless the class defines it
  otherwise) and \<open>tool_manager_execute_tool\<close> its method \<open>execute_tool\<close>.
\<close>

datatype event =
    Generate_content string "content list" generate_content_config
  | Execute_tool string pydict

record 'w world =
  env :: 'w
  trace :: "event list"

type_synonym 'w genai_client =
  "string \<Rightarrow> content list \<Rightarrow> generate_content_config \<Rightarrow> 'w \<Rightarrow> (error + response) \<times> 'w"

record 'w tool_manager =
  tool_manager_bool :: bool
  tool_manager_execute_tool :: "string \<Rightarrow> pydict \<Rightarrow> 'w \<Rightarrow> (error + jvalue) \<times> 'w"

record 'w ai_generator =
  client :: "'w genai_client"
  model :: string

text \<open>
  \<open>self.client.models.generate_content(model=self.model, contents=..., config=...)\<close>: the
  call is recorded in the trace with the values its arguments have at the time of the call,
  whether the provider answers or raises.
\<close>

definition generate_content ::
  "'w ai_generator \<Rightarrow> content list \<Rightarrow> generate_content_config \<Rightarrow> 'w world
     \<Rightarrow> (error + response) \<times> 'w world" where
  "generate_content self contents config s =
     (case client self (model self) contents config (env s) of
        (r, w) \<Rightarrow> (r, \<lparr>env = w, trace = trace s @ [Generate_content (model self) contents config]\<rparr>))"

text \<open>\<open>tool_manager.execute_tool(fn_call.name, **kwargs)\<close>, recorded in the same way.\<close>

definition execute_tool ::
  "'w tool_manager \<Rightarrow> string \<Rightarrow> pydict \<Rightarrow> 'w world \<Rightarrow> (error + jvalue) \<times> 'w world" where
  "execute_tool tool_manager n kwargs s =
     (case tool_manager_execute_tool tool_manager n kwargs (env s) of
        (r, w) \<Rightarrow> (r, \<lparr>env = w, trace = trace s @ [Execute_tool n kwargs]\<rparr>))"

subsection \<open>The system prompt and the system instruction\<close>

definition SYSTEM_PROMPT :: string where
  \<open>SYSTEM_PROMPT =
     '' You are an AI assistant specialized in course materials and educational content with access to a comprehensive search tool for course information.\<newline>''
   @ ''\<newline>''
   @ ''Search Tool Usage:\<newline>''
   @ ''- Use the search tool **only** for questions about specific course content or detailed educational materials\<newline>''
   @ ''- **One search per query maximum**\<newline>''
   @ ''- Synthesize search results into accurate, fact-based responses\<newline>''
   @ ''- If search yields no results, state this clearly without offering alternatives\<newline>''
   @ ''\<newline>''
   @ ''Response Protocol:\<newline>''
   @ ''- **General knowledge questions**: Answer using existing knowledge without searching\<newline>''
   @ ''- **Course-specific questions**: Search first, then answer\<newline>''
   @ ''- **No meta-commentary**:\<newline>''
   @ '' - Provide direct answers only '' @ [CHR 0xC3, CHR 0xA2, CHR 0xE2, CHR 0x82, CHR 0xAC, CHR 0xE2, CHR 0x80, CHR 0x9D]
   @ '' no reasoning process, search explanations, or question-type analysis\<newline>''
   @ '' - Do not mention '' @ [CHR 0x22] @ ''based on the search results'' @ [CHR 0x22] @ ''\<newline>''
   @ ''\<newline>''
   @ ''\<newline>''
   @ ''All responses must be:\<newline>''
   @ ''1. **Brief, Concise and focused** - Get to the point quickly\<newline>''
   @ ''2. **Educational** - Maintain instructional value\<newline>''
   @ ''3. **Clear** - Use accessible language\<newline>''
   @ ''4. **Example-supported** - Include relevant examples when they aid understanding\<newline>''
   @ ''Provide only the direct answer to what was asked.\<newline>''\<close>

text \<open>
  Lines 66 to 70 of the source, with the base instruction as a parameter: the conditional
  expression tests the truth value of \<open>conversation_history\<close>, and the f-string puts the
  history after the heading \<open>Previous conversation:\<close>.
\<close>

definition previous_conversation :: string where
  "previous_conversation = ''\<newline>\<newline>Previous conversation:\<newline>''"

definition build_system_instruction :: "string \<Rightarrow> string option \<Rightarrow> string" where
  "build_system_instruction base conversation_history =
     (if truthy conversation_history
      then (case conversation_history of
              Some h \<Rightarrow> base @ previous_conversation @ h
            | None \<Rightarrow> base)
      else base)"

subsection \<open>\<open>_build_gemini_tools\<close>\<close>

text \<open>
  The loop of lines 40 to 45: a declaration per tool definition, appended in order. The
  three values are read in the order of the keyword arguments; a definition without one of
  the keys raises \<open>KeyError\<close>, and the library's constructor may raise in its turn.
\<close>

fun declarations_loop ::
  "genai_types \<Rightarrow> pydict list \<Rightarrow> function_declaration list
     \<Rightarrow> error + function_declaration list" where
  "declarations_loop types [] declarations = Inr declarations"
| "declarations_loop types (tool_def # rest) declarations =
     (case getitem tool_def ''name'' of
        Inl e \<Rightarrow> Inl e
      | Inr n \<Rightarrow>
          (case getitem tool_def ''description'' of
             Inl e \<Rightarrow> Inl e
           | Inr d \<Rightarrow>
               (case getitem tool_def ''parameters'' of
                  Inl e \<Rightarrow> Inl e
                | Inr p \<Rightarrow>
                    (case FunctionDeclaration types n d p of
                       Inl e \<Rightarrow> Inl e
                     | Inr declaration \<Rightarrow>
                         declarations_loop types rest (declarations @ [declaration])))))"

definition build_gemini_tools :: "genai_types \<Rightarrow> pydict list \<Rightarrow> error + tool list" where
  "build_gemini_tools types tool_defs =
     (case declarations_loop types tool_defs [] of
        Inl e \<Rightarrow> Inl e
      | Inr declarations \<Rightarrow> Inr [Tool declarations])"

subsection \<open>\<open>_handle_tool_execution\<close>\<close>

text \<open>
  The loop of lines 118 to 128. \<open>**fn_call.args\<close> raises when the arguments are \<open>None\<close>,
  before the tool manager is called; an exception of the tool manager is not caught and
  ends the loop.
\<close>

fun tool_calls_loop ::
  "'w tool_manager \<Rightarrow> function_call list \<Rightarrow> part list \<Rightarrow> 'w world
     \<Rightarrow> (error + part list) \<times> 'w world" where
  "tool_calls_loop tool_manager [] tool_response_parts s = (Inr tool_response_parts, s)"
| "tool_calls_loop tool_manager (fn_call # rest) tool_response_parts s =
     (case args fn_call of
        None \<Rightarrow> (Inl TypeError, s)
      | Some kwargs \<Rightarrow>
          (case execute_tool tool_manager (name fn_call) kwargs s of
             (Inl e, s') \<Rightarrow> (Inl e, s')
           | (Inr tool_result, s') \<Rightarrow>
               tool_calls_loop tool_manager rest
                 (tool_response_parts
                    @ [Part_function_response (name fn_call) [(''result'', tool_result)]])
                 s'))"

definition handle_tool_execution ::
  "'w ai_generator \<Rightarrow> response \<Rightarrow> content list \<Rightarrow> generate_content_config
     \<Rightarrow> 'w tool_manager \<Rightarrow> 'w world \<Rightarrow> (error + string option) \<times> 'w world" where
  "handle_tool_execution self initial_response contents config tool_manager s =
     (let contents1 = contents @ [candidate_content initial_response] in
      case function_calls initial_response of
        None \<Rightarrow> (Inl TypeError, s)
      | Some fn_calls \<Rightarrow>
          (case tool_calls_loop tool_manager fn_calls [] s of
             (Inl e, s1) \<Rightarrow> (Inl e, s1)
           | (Inr tool_response_parts, s1) \<Rightarrow>
               (let contents2 = contents1 @ [\<lparr>role = ''user'', parts = tool_response_parts\<rparr>];
                    config2 = config\<lparr>tools := None\<rparr>
                in case generate_content self contents2 config2 s1 of
                     (Inl e, s2) \<Rightarrow> (Inl e, s2)
                   | (Inr final_response, s2) \<Rightarrow> (Inr (text final_response), s2))))"

subsection \<open>\<open>generate_response\<close>\<close>

definition base_config :: "string option \<Rightarrow> generate_content_config" where
  "base_config conversation_history =
     \<lparr>system_instruction = build_system_instruction SYSTEM_PROMPT conversation_history,
      temperature = 0,
      max_output_tokens = 800,
      tools = None\<rparr>"

text \<open>Lines 80 and 81: \<open>if tools: config.tools = self._build_gemini_tools(tools)\<close>.\<close>

definition add_tools ::
  "genai_types \<Rightarrow> pydict list option \<Rightarrow> generate_content_config
     \<Rightarrow> error + generate_content_config" where
  "add_tools types tool_defs config =
     (if truthy tool_defs
      then (case tool_defs of
              Some ts \<Rightarrow>
                (case build_gemini_tools types ts of
                   Inl e \<Rightarrow> Inl e
                 | Inr gemini_tools \<Rightarrow> Inr (config\<lparr>tools := Some gemini_tools\<rparr>))
            | None \<Rightarrow> Inr config)
      else Inr config)"

definition user_message :: "string \<Rightarrow> content list" where
  "user_message query = [\<lparr>role = ''user'', parts = [Part_text query]\<rparr>]"

text \<open>
  Line 94, \<open>if response.function_calls and tool_manager\<close>, tests two truth values: the
  list of requests is neither \<open>None\<close> nor empty, and the tool manager is neither \<open>None\<close>
  nor an object that is false.
\<close>

definition generate_response ::
  "genai_types \<Rightarrow> 'w ai_generator \<Rightarrow> string \<Rightarrow> string option \<Rightarrow> pydict list option
     \<Rightarrow> 'w tool_manager option \<Rightarrow> 'w world \<Rightarrow> (error + string option) \<times> 'w world" where
  "generate_response types self query conversation_history tool_defs tool_manager s =
     (case add_tools types tool_defs (base_config conversation_history) of
        Inl e \<Rightarrow> (Inl e, s)
      | Inr config \<Rightarrow>
          (let contents = user_message query
           in case generate_content self contents config s of
                (Inl e, s1) \<Rightarrow> (Inl e, s1)
              | (Inr response, s1) \<Rightarrow>
                  (case tool_manager of
                     Some tm \<Rightarrow>
                       if truthy (function_calls response) \<and> tool_manager_bool tm
                       then handle_tool_execution self response contents config tm s1
                       else (Inr (text response), s1)
                   | None \<Rightarrow> (Inr (text response), s1))))"

subsection \<open>Observations on the trace\<close>

text \<open>
  \<open>issued s s'\<close> are the calls made between the worlds \<open>s\<close> and \<open>s'\<close>,
  \<open>provider_configs\<close> the configs of the provider calls among them, in order, and
  \<open>tool_event fn_call\<close> the call of the tool manager that a request stands for.
\<close>

definition issued :: "'w world \<Rightarrow> 'w world \<Rightarrow> event list" where
  "issued s s' = drop (length (trace s)) (trace s')"

fun provider_configs :: "event list \<Rightarrow> generate_content_config list" where
  "provider_configs [] = []"
| "provider_configs (Generate_content m c cfg # evs) = cfg # provider_configs evs"
| "provider_configs (Execute_tool n kw # evs) = provider_configs evs"

fun kwargs :: "function_call \<Rightarrow> pydict" where
  "kwargs fc = (case args fc of Some kw \<Rightarrow> kw | None \<Rightarrow> [])"

definition tool_event :: "function_call \<Rightarrow> event" where
  "tool_event fc = Execute_tool (name fc) (kwargs fc)"

text \<open>
  \<open>tools_return tm fcs w vs w'\<close>: when the method \<open>execute_tool\<close> of the tool manager is
  applied to the requests \<open>fcs\<close> one after the other, the first in the environment \<open>w\<close>
  and each next one in the environment that the one before it left, every request has
  arguments, every application returns, the values returned are \<open>vs\<close>, in this order, and
  the last application leaves the environment \<open>w'\<close>. This speaks of the tool manager
  alone. \<open>result_part fc v\<close> is the part that answers the request \<open>fc\<close> with the value \<open>v\<close>.
\<close>

fun tools_return ::
  "'w tool_manager \<Rightarrow> function_call list \<Rightarrow> 'w \<Rightarrow> jvalue list \<Rightarrow> 'w \<Rightarrow> bool" where
  "tools_return tm [] w vs w' = (vs = [] \<and> w' = w)"
| "tools_return tm (fc # fcs) w vs w' =
     (case args fc of
        None \<Rightarrow> False
      | Some kw \<Rightarrow>
          (case tool_manager_execute_tool tm (name fc) kw w of
             (Inl e, w1) \<Rightarrow> False
           | (Inr v, w1) \<Rightarrow>
               (case vs of
                  [] \<Rightarrow> False
                | v' # vs' \<Rightarrow> v' = v \<and> tools_return tm fcs w1 vs' w')))"

definition result_part :: "function_call \<Rightarrow> jvalue \<Rightarrow> part" where
  "result_part fc v = Part_function_response (name fc) [(''result'', v)]"

subsection \<open>Concrete collaborators\<close>

text \<open>
  The collaborators on which the theorems below are instantiated. The constructor of
  declarations wants a name and a description that are strings, and writes the type
  \<open>object\<close> of a schema in capitals. A scripted provider answers its first call (the
  environment, a counter, is 0) with a given response and every later call with a text.
  A tool manager knows a list of tool names: for these it returns the name and the
  arguments it was given, for any other name it raises; each call advances the counter.
\<close>

fun schema_entry :: "string \<times> jvalue \<Rightarrow> string \<times> jvalue" where
  "schema_entry (k, v) =
     (if k = ''type'' \<and> v = JStr ''object'' then (k, JStr ''OBJECT'') else (k, v))"

fun normalise_schema :: "jvalue \<Rightarrow> jvalue" where
  "normalise_schema (JDict kvs) = JDict (map schema_entry kvs)"
| "normalise_schema v = v"

fun checked_declaration :: "jvalue \<Rightarrow> jvalue \<Rightarrow> jvalue \<Rightarrow> error + function_declaration" where
  "checked_declaration (JStr n) (JStr d) p = Inr (Declaration (JStr n) (JStr d) (normalise_schema p))"
| "checked_declaration n d p = Inl (Raised ''ValidationError'')"

definition library_types :: genai_types where
  "library_types = \<lparr>FunctionDeclaration = checked_declaration\<rparr>"

definition search_tool :: pydict where
  "search_tool =
     [(''name'', JStr ''search_course_content''),
      (''description'', JStr ''Search course materials''),
      (''parameters'', JDict [(''type'', JStr ''object'')])]"

definition search_call :: function_call where
  "search_call =
     \<lparr>name = ''search_course_content'',
      args = Some [(''course'', JStr ''X''), (''lesson'', JInt 3)]\<rparr>"

definition outline_call :: function_call where
  "outline_call = \<lparr>name = ''get_course_outline'', args = Some [(''course'', JStr ''X'')]\<rparr>"

definition requesting :: "function_call list \<Rightarrow> response" where
  "requesting fcs =
     \<lparr>text = None,
      function_calls = Some fcs,
      candidate_content = \<lparr>role = ''model'', parts = map Part_function_call fcs\<rparr>\<rparr>"

definition text_answer :: "string \<Rightarrow> response" where
  "text_answer t =
     \<lparr>text = Some t,
      function_calls = None,
      candidate_content = \<lparr>role = ''model'', parts = [Part_text t]\<rparr>\<rparr>"

definition scripted_client :: "response \<Rightarrow> nat genai_client" where
  "scripted_client first m contents config n =
     (if n = 0 then (Inr first, Suc n)
      else (Inr (text_answer ''Lesson 3 covers sorting algorithms, including quicksort.''), Suc n))"

definition scripted_generator :: "response \<Rightarrow> nat ai_generator" where
  "scripted_generator first = \<lparr>client = scripted_client first, model = ''gemini''\<rparr>"

definition tools_knowing :: "string list \<Rightarrow> nat tool_manager" where
  "tools_knowing names =
     \<lparr>tool_manager_bool = True,
      tool_manager_execute_tool =
        (\<lambda>n kw w. if n \<in> set names
                   then (Inr (JDict ((''tool'', JStr n) # kw)), Suc w)
                   else (Inl (Raised ''NotFoundError''), Suc w))\<rparr>"

definition false_tools :: "nat tool_manager" where
  "false_tools =
     (tools_knowing [''search_course_content''])\<lparr>tool_manager_bool := False\<rparr>"

definition start :: "nat world" where
  "start = \<lparr>env = 0, trace = []\<rparr>"

definition search_config :: generate_content_config where
  "search_config =
     \<lparr>system_instruction = SYSTEM_PROMPT,
      temperature = 0,
      max_output_tokens = 800,
      tools = Some [Tool [Declaration (JStr ''search_course_content'')
                            (JStr ''Search course materials'')
                            (JDict [(''type'', JStr ''OBJECT'')])]]\<rparr>"

section \<open>Properties\<close>

subsection \<open>Traces of the collaborators' calls\<close>

lemma provider_configs_append:
  "provider_configs (xs @ ys) = provider_configs xs @ provider_configs ys"
  by (induction xs rule: provider_configs.induct) simp_all

lemma provider_configs_tool_events: "provider_configs (map tool_event fcs) = []"
  by (induction fcs) (simp_all add: tool_event_def)

lemma generate_content_trace:
  "generate_content self c cfg s = (r, s') \<Longrightarrow>
     trace s' = trace s @ [Generate_content (model self) c cfg]"
  by (auto simp: generate_content_def split: prod.splits)


lemma generate_content_by_client:
  "client self (model self) c cfg (env s) = (r, w) \<Longrightarrow>
     generate_content self c cfg s =
       (r, \<lparr>env = w, trace = trace s @ [Generate_content (model self) c cfg]\<rparr>)"
  by (simp add: generate_content_def)

lemma execute_tool_trace:
  "execute_tool tm n kw s = (r, s') \<Longrightarrow> trace s' = trace s @ [Execute_tool n kw]"
  by (auto simp: execute_tool_def split: prod.splits)

lemma execute_tool_by_manager:
  "tool_manager_execute_tool tm n kw (env s) = (r, w) \<Longrightarrow>
     execute_tool tm n kw s = (r, \<lparr>env = w, trace = trace s @ [Execute_tool n kw]\<rparr>)"
  by (simp add: execute_tool_def)

lemma execute_tool_manager:
  "execute_tool tm n kw s = (r, s') \<Longrightarrow> tool_manager_execute_tool tm n kw (env s) = (r, env s')"
  by (auto simp: execute_tool_def split: prod.splits)

subsection \<open>The tool loop\<close>

lemma tool_calls_loop_trace:
  "tool_calls_loop tm fcs acc s = (r, s') \<Longrightarrow>
     \<exists>k \<le> length fcs. trace s' = trace s @ map tool_event (take k fcs)"
proof (induction fcs arbitrary: acc s)
  case Nil
  then show ?case by simp
next
  case (Cons fc fcs)
  show ?case
  proof (cases "args fc")
    case None
    with Cons.prems have "s' = s" by simp
    then have "trace s' = trace s @ map tool_event (take 0 (fc # fcs))" by simp
    then show ?thesis by blast
  next
    case (Some kw)
    obtain r1 s1 where ex: "execute_tool tm (name fc) kw s = (r1, s1)"
      by (cases "execute_tool tm (name fc) kw s")
    have t1: "trace s1 = trace s @ [tool_event fc]"
      using execute_tool_trace [OF ex] Some by (simp add: tool_event_def)
    show ?thesis
    proof (cases r1)
      case (Inl e)
      with Cons.prems Some ex have "s' = s1" by simp
      with t1 have "trace s' = trace s @ map tool_event (take 1 (fc # fcs))" by simp
      moreover have "1 \<le> length (fc # fcs)" by simp
      ultimately show ?thesis by blast
    next
      case (Inr v)
      with Cons.prems Some ex
      have "tool_calls_loop tm fcs
              (acc @ [Part_function_response (name fc) [(''result'', v)]]) s1 = (r, s')"
        by simp
      from Cons.IH [OF this] obtain k where
        k: "k \<le> length fcs" "trace s' = trace s1 @ map tool_event (take k fcs)" by blast
      with t1 have "trace s' = trace s @ map tool_event (take (Suc k) (fc # fcs))" by simp
      moreover from k have "Suc k \<le> length (fc # fcs)" by simp
      ultimately show ?thesis by blast
    qed
  qed
qed

lemma tools_return_length: "tools_return tm fcs w vs w' \<Longrightarrow> length vs = length fcs"
proof (induction fcs arbitrary: w vs)
  case Nil
  then show ?case by simp
next
  case (Cons fc fcs)
  then show ?case
    by (auto split: option.splits prod.splits sum.splits list.splits)
qed

lemma tools_return_Cons:
  assumes "tools_return tm (fc # fcs) w vs w'"
  obtains kw v w1 vs' where "args fc = Some kw"
    "tool_manager_execute_tool tm (name fc) kw w = (Inr v, w1)"
    "vs = v # vs'" "tools_return tm fcs w1 vs' w'"
  using assms by (auto split: option.splits prod.splits sum.splits list.splits)

lemma tools_return_args:
  "tools_return tm fcs w vs w' \<Longrightarrow> list_all (\<lambda>fc. args fc = Some (kwargs fc)) fcs"
proof (induction fcs arbitrary: w vs)
  case Nil
  then show ?case by simp
next
  case (Cons fc fcs)
  from Cons.prems obtain kw v w1 vs' where "args fc = Some kw"
    "tool_manager_execute_tool tm (name fc) kw w = (Inr v, w1)" "tools_return tm fcs w1 vs' w'"
    by (rule tools_return_Cons)
  with Cons.IH show ?case by simp
qed

lemma tool_calls_loop_returns:
  "tools_return tm fcs (env s) vs w' \<Longrightarrow>
     tool_calls_loop tm fcs acc s =
       (Inr (acc @ map2 result_part fcs vs),
        \<lparr>env = w', trace = trace s @ map tool_event fcs\<rparr>)"
proof (induction fcs arbitrary: s vs acc)
  case Nil
  then show ?case by simp
next
  case (Cons fc fcs)
  from Cons.prems obtain kw v w1 vs' where kw: "args fc = Some kw"
    and call: "tool_manager_execute_tool tm (name fc) kw (env s) = (Inr v, w1)"
    and vs: "vs = v # vs'" and rest: "tools_return tm fcs w1 vs' w'"
    by (rule tools_return_Cons)
  let ?s1 = "\<lparr>env = w1, trace = trace s @ [Execute_tool (name fc) kw]\<rparr>"
  from rest have "tools_return tm fcs (env ?s1) vs' w'" by simp
  from Cons.IH [OF this, of "acc @ [result_part fc v]"]
  have "tool_calls_loop tm fcs (acc @ [result_part fc v]) ?s1 =
          (Inr ((acc @ [result_part fc v]) @ map2 result_part fcs vs'),
           \<lparr>env = w', trace = trace ?s1 @ map tool_event fcs\<rparr>)" .
  moreover from kw have "tool_event fc = Execute_tool (name fc) kw"
    by (simp add: tool_event_def)
  ultimately show ?case
    using kw vs execute_tool_by_manager [OF call] by (simp add: result_part_def)
qed

lemma tool_calls_loop_returned:
  "tool_calls_loop tm fcs acc s = (Inr ps, s') \<Longrightarrow>
     \<exists>vs. tools_return tm fcs (env s) vs (env s') \<and>
          ps = acc @ map2 result_part fcs vs \<and>
          trace s' = trace s @ map tool_event fcs"
proof (induction fcs arbitrary: acc s)
  case Nil
  then show ?case by simp
next
  case (Cons fc fcs)
  from Cons.prems obtain kw where kw: "args fc = Some kw"
    by (cases "args fc") simp_all
  obtain r1 s1 where ex: "execute_tool tm (name fc) kw s = (r1, s1)"
    by (cases "execute_tool tm (name fc) kw s")
  from Cons.prems kw ex obtain v where v: "r1 = Inr v"
    by (cases r1) simp_all
  from execute_tool_manager [OF ex] v
  have call: "tool_manager_execute_tool tm (name fc) kw (env s) = (Inr v, env s1)" by simp
  have t1: "trace s1 = trace s @ [tool_event fc]"
    using execute_tool_trace [OF ex] kw by (simp add: tool_event_def)
  from Cons.prems kw ex v
  have "tool_calls_loop tm fcs (acc @ [result_part fc v]) s1 = (Inr ps, s')"
    by (simp add: result_part_def)
  from Cons.IH [OF this] obtain vs' where
    rest: "tools_return tm fcs (env s1) vs' (env s')"
    and ps: "ps = (acc @ [result_part fc v]) @ map2 result_part fcs vs'"
    and tr: "trace s' = trace s1 @ map tool_event fcs"
    by blast
  from kw call rest have "tools_return tm (fc # fcs) (env s) (v # vs') (env s')" by simp
  moreover from ps have "ps = acc @ map2 result_part (fc # fcs) (v # vs')" by simp
  moreover from tr t1 have "trace s' = trace s @ map tool_event (fc # fcs)" by simp
  ultimately show ?case by blast
qed

lemma tool_calls_loop_raises:
  assumes kw: "args fc = Some kw"
  shows "tools_return tm pre (env s) vs w \<Longrightarrow>
         tool_manager_execute_tool tm (name fc) kw w = (Inl e, w') \<Longrightarrow>
         tool_calls_loop tm (pre @ fc # post) acc s =
           (Inl e, \<lparr>env = w', trace = trace s @ map tool_event (pre @ [fc])\<rparr>)"
proof (induction pre arbitrary: s vs acc)
  case Nil
  then have "tool_manager_execute_tool tm (name fc) kw (env s) = (Inl e, w')" by simp
  from execute_tool_by_manager [OF this] kw show ?case by (simp add: tool_event_def)
next
  case (Cons p pre)
  from Cons.prems(1) obtain pkw v w1 vs' where pkw: "args p = Some pkw"
    and call: "tool_manager_execute_tool tm (name p) pkw (env s) = (Inr v, w1)"
    and rest: "tools_return tm pre w1 vs' w"
    by (rule tools_return_Cons)
  let ?s1 = "\<lparr>env = w1, trace = trace s @ [Execute_tool (name p) pkw]\<rparr>"
  from rest have "tools_return tm pre (env ?s1) vs' w" by simp
  from Cons.IH [OF this Cons.prems(2), of "acc @ [Part_function_response (name p) [(''result'', v)]]"]
  have "tool_calls_loop tm (pre @ fc # post)
          (acc @ [Part_function_response (name p) [(''result'', v)]]) ?s1 =
        (Inl e, \<lparr>env = w', trace = trace ?s1 @ map tool_event (pre @ [fc])\<rparr>)" .
  moreover from pkw have "tool_event p = Execute_tool (name p) pkw"
    by (simp add: tool_event_def)
  ultimately show ?case
    using pkw execute_tool_by_manager [OF call] by simp
qed

subsection \<open>The paths through \<open>generate_response\<close>\<close>

lemma generate_response_no_config:
  "add_tools types tds (base_config h) = Inl e \<Longrightarrow>
     generate_response types self q h tds tm s = (Inl e, s)"
  by (simp add: generate_response_def)

lemma generate_response_provider_failure:
  "add_tools types tds (base_config h) = Inr config \<Longrightarrow>
   generate_content self (user_message q) config s = (Inl e, s1) \<Longrightarrow>
   generate_response types self q h tds tm s = (Inl e, s1)"
  by (simp add: generate_response_def)

lemma generate_response_direct:
  "add_tools types tds (base_config h) = Inr config \<Longrightarrow>
   generate_content self (user_message q) config s = (Inr response, s1) \<Longrightarrow>
   \<not> (truthy (function_calls response) \<and> (\<exists>ex. tm = Some ex \<and> tool_manager_bool ex)) \<Longrightarrow>
   generate_response types self q h tds tm s = (Inr (text response), s1)"
  by (cases tm) (auto simp: generate_response_def)

lemma generate_response_round:
  "add_tools types tds (base_config h) = Inr config \<Longrightarrow>
   generate_content self (user_message q) config s = (Inr response, s1) \<Longrightarrow>
   truthy (function_calls response) \<Longrightarrow> tool_manager_bool ex \<Longrightarrow>
   generate_response types self q h tds (Some ex) s =
     handle_tool_execution self response (user_message q) config ex s1"
  by (simp add: generate_response_def)

lemma handle_tool_execution_failed:
  "function_calls r = Some fcs \<Longrightarrow>
   tool_calls_loop ex fcs [] s1 = (Inl e, s2) \<Longrightarrow>
   handle_tool_execution self r c cfg ex s1 = (Inl e, s2)"
  by (simp add: handle_tool_execution_def)

lemma handle_tool_execution_completed:
  "function_calls r = Some fcs \<Longrightarrow>
   tool_calls_loop ex fcs [] s1 = (Inr ps, s2) \<Longrightarrow>
   generate_content self (c @ [candidate_content r, \<lparr>role = ''user'', parts = ps\<rparr>])
     (cfg\<lparr>tools := None\<rparr>) s2 = (r2, s3) \<Longrightarrow>
   handle_tool_execution self r c cfg ex s1 =
     ((case r2 of Inl e \<Rightarrow> Inl e | Inr final_response \<Rightarrow> Inr (text final_response)), s3)"
  by (cases r2) (simp_all add: handle_tool_execution_def)

lemma truthy_Some: "truthy xo \<Longrightarrow> \<exists>xs. xo = Some xs \<and> xs \<noteq> []"
  by (cases xo) simp_all

lemma generate_response_cases [consumes 1, case_names config_failure provider_failure direct
    tool_failure follow_up]:
  assumes run: "generate_response types self q h tds tm s = (res, s')"
  obtains
    e where "add_tools types tds (base_config h) = Inl e" "res = Inl e" "s' = s"
  | config e where "add_tools types tds (base_config h) = Inr config"
      "generate_content self (user_message q) config s = (Inl e, s')" "res = Inl e"
  | config response where "add_tools types tds (base_config h) = Inr config"
      "generate_content self (user_message q) config s = (Inr response, s')"
      "\<not> (truthy (function_calls response) \<and> (\<exists>ex. tm = Some ex \<and> tool_manager_bool ex))"
      "res = Inr (text response)"
  | config response s1 ex fcs e where "add_tools types tds (base_config h) = Inr config"
      "generate_content self (user_message q) config s = (Inr response, s1)"
      "tm = Some ex" "tool_manager_bool ex" "function_calls response = Some fcs" "fcs \<noteq> []"
      "tool_calls_loop ex fcs [] s1 = (Inl e, s')" "res = Inl e"
  | config response s1 ex fcs ps s2 r2 where "add_tools types tds (base_config h) = Inr config"
      "generate_content self (user_message q) config s = (Inr response, s1)"
      "tm = Some ex" "tool_manager_bool ex" "function_calls response = Some fcs" "fcs \<noteq> []"
      "tool_calls_loop ex fcs [] s1 = (Inr ps, s2)"
      "generate_content self
         (user_message q @ [candidate_content response, \<lparr>role = ''user'', parts = ps\<rparr>])
         (config\<lparr>tools := None\<rparr>) s2 = (r2, s')"
      "res = (case r2 of Inl e \<Rightarrow> Inl e | Inr final_response \<Rightarrow> Inr (text final_response))"
proof (cases "add_tools types tds (base_config h)")
  case (Inl e)
  from generate_response_no_config [OF Inl, of self q tm s] run
  have "res = Inl e" "s' = s" by simp_all
  with Inl show ?thesis by (rule that(1))
next
  case (Inr config)
  obtain r1 s1 where g1: "generate_content self (user_message q) config s = (r1, s1)"
    by (cases "generate_content self (user_message q) config s")
  show ?thesis
  proof (cases r1)
    case (Inl e)
    with g1 have g1': "generate_content self (user_message q) config s = (Inl e, s1)" by simp
    from generate_response_provider_failure [OF Inr g1', of tm] run
    have "res = Inl e" "s' = s1" by simp_all
    with Inr g1' show ?thesis by (auto intro: that(2))
  next
    case r1: (Inr response)
    with g1 have g1': "generate_content self (user_message q) config s = (Inr response, s1)"
      by simp
    show ?thesis
    proof (cases "truthy (function_calls response) \<and> (\<exists>ex. tm = Some ex \<and> tool_manager_bool ex)")
      case False
      from generate_response_direct [OF Inr g1' False] run
      have "res = Inr (text response)" "s' = s1" by simp_all
      with Inr g1' False show ?thesis by (auto intro: that(3))
    next
      case True
      then obtain ex where ex: "tm = Some ex" "tool_manager_bool ex" by auto
      from True obtain fcs where fcs: "function_calls response = Some fcs" "fcs \<noteq> []"
        using truthy_Some by blast
      from True have "truthy (function_calls response)" by simp
      from generate_response_round [OF Inr g1' this ex(2)] run ex
      have h: "handle_tool_execution self response (user_message q) config ex s1 = (res, s')"
        by simp
      obtain lr s2 where loop: "tool_calls_loop ex fcs [] s1 = (lr, s2)"
        by (cases "tool_calls_loop ex fcs [] s1")
      show ?thesis
      proof (cases lr)
        case (Inl e)
        with loop have l: "tool_calls_loop ex fcs [] s1 = (Inl e, s2)" by simp
        from handle_tool_execution_failed [OF fcs(1) l] h
        have "res = Inl e" "s' = s2" by simp_all
        with Inr g1' ex fcs l show ?thesis by (auto intro: that(4))
      next
        case ps: (Inr ps)
        with loop have l: "tool_calls_loop ex fcs [] s1 = (Inr ps, s2)" by simp
        obtain r2 s3 where g2:
          "generate_content self
             (user_message q @ [candidate_content response, \<lparr>role = ''user'', parts = ps\<rparr>])
             (config\<lparr>tools := None\<rparr>) s2 = (r2, s3)"
          by (cases "generate_content self
             (user_message q @ [candidate_content response, \<lparr>role = ''user'', parts = ps\<rparr>])
             (config\<lparr>tools := None\<rparr>) s2")
        from handle_tool_execution_completed [OF fcs(1) l g2] h
        have "res = (case r2 of Inl e \<Rightarrow> Inl e | Inr final_response \<Rightarrow> Inr (text final_response))"
          "s' = s3" by simp_all
        with Inr g1' ex fcs l g2 show ?thesis by (auto intro: that(5))
      qed
    qed
  qed
qed

subsection \<open>The request\<close>

lemma build_system_instruction_absent: "build_system_instruction base None = base"
  by (simp add: build_system_instruction_def)

lemma declarations_loop_preserves:
  "declarations_loop types ts acc = Inr ds \<Longrightarrow>
     \<exists>new. ds = acc @ new \<and> length new = length ts \<and>
       (\<forall>i<length ts. \<exists>n d p.
          getitem (ts ! i) ''name'' = Inr n \<and>
          getitem (ts ! i) ''description'' = Inr d \<and>
          getitem (ts ! i) ''parameters'' = Inr p \<and>
          FunctionDeclaration types n d p = Inr (new ! i))"
proof (induction ts arbitrary: acc)
  case Nil
  then show ?case by simp
next
  case (Cons t ts)
  from Cons.prems obtain n where n: "getitem t ''name'' = Inr n"
    by (cases "getitem t ''name''") simp_all
  from Cons.prems n obtain d where d: "getitem t ''description'' = Inr d"
    by (cases "getitem t ''description''") simp_all
  from Cons.prems n d obtain p where p: "getitem t ''parameters'' = Inr p"
    by (cases "getitem t ''parameters''") simp_all
  from Cons.prems n d p obtain decl where decl: "FunctionDeclaration types n d p = Inr decl"
    by (cases "FunctionDeclaration types n d p") simp_all
  from Cons.prems n d p decl have "declarations_loop types ts (acc @ [decl]) = Inr ds" by simp
  from Cons.IH [OF this] obtain new where new:
    "ds = (acc @ [decl]) @ new" "length new = length ts"
    "\<forall>i<length ts. \<exists>n d p.
        getitem (ts ! i) ''name'' = Inr n \<and>
        getitem (ts ! i) ''description'' = Inr d \<and>
        getitem (ts ! i) ''parameters'' = Inr p \<and>
        FunctionDeclaration types n d p = Inr (new ! i)"
    by blast
  have "\<exists>n d p.
          getitem ((t # ts) ! i) ''name'' = Inr n \<and>
          getitem ((t # ts) ! i) ''description'' = Inr d \<and>
          getitem ((t # ts) ! i) ''parameters'' = Inr p \<and>
          FunctionDeclaration types n d p = Inr ((decl # new) ! i)"
    if "i < length (t # ts)" for i
  proof (cases i)
    case 0
    with n d p decl show ?thesis by simp
  next
    case (Suc j)
    with that new(3) show ?thesis by simp
  qed
  with new(1,2) have
    "ds = acc @ (decl # new) \<and> length (decl # new) = length (t # ts) \<and>
     (\<forall>i<length (t # ts). \<exists>n d p.
        getitem ((t # ts) ! i) ''name'' = Inr n \<and>
        getitem ((t # ts) ! i) ''description'' = Inr d \<and>
        getitem ((t # ts) ! i) ''parameters'' = Inr p \<and>
        FunctionDeclaration types n d p = Inr ((decl # new) ! i))"
    by simp
  then show ?case by blast
qed

lemma add_tools_config:
  assumes "add_tools types tds (base_config h) = Inr config"
  shows "temperature config = 0" "max_output_tokens config = 800"
    "system_instruction config = build_system_instruction SYSTEM_PROMPT h"
    "tools config \<noteq> None \<longleftrightarrow> truthy tds"
  using assms
  by (auto simp: add_tools_def base_config_def split: if_splits option.splits sum.splits)

lemma add_tools_declarations:
  assumes "add_tools types (Some ts) (base_config h) = Inr config" and "ts \<noteq> []"
  shows "\<exists>decls. tools config = Some [Tool decls] \<and> length decls = length ts \<and>
           (\<forall>i<length ts. \<exists>n d p.
              getitem (ts ! i) ''name'' = Inr n \<and>
              getitem (ts ! i) ''description'' = Inr d \<and>
              getitem (ts ! i) ''parameters'' = Inr p \<and>
              FunctionDeclaration types n d p = Inr (decls ! i))"
proof -
  from assms obtain ds where ds: "declarations_loop types ts [] = Inr ds"
    and cfg: "tools config = Some [Tool ds]"
    by (auto simp: add_tools_def build_gemini_tools_def split: sum.splits)
  from declarations_loop_preserves [OF ds] cfg show ?thesis by auto
qed

lemma empty_catalog: "add_tools types (Some []) config = Inr config"
  by (simp add: add_tools_def)

lemma no_catalog: "add_tools types None config = Inr config"
  by (simp add: add_tools_def)

subsection \<open>What an invocation issues\<close>

lemma issued_first:
  "generate_content self c cfg s = (r, s1) \<Longrightarrow> issued s s1 = [Generate_content (model self) c cfg]"
  by (simp add: issued_def generate_content_trace)

lemma issued_tool_failure:
  assumes "generate_content self c cfg s = (r1, s1)"
      and "tool_calls_loop ex fcs acc s1 = (lr, s2)"
  shows "\<exists>k\<le>length fcs.
           issued s s2 = Generate_content (model self) c cfg # map tool_event (take k fcs)"
  using generate_content_trace [OF assms(1)] tool_calls_loop_trace [OF assms(2)]
  by (auto simp: issued_def)

lemma issued_follow_up:
  assumes "generate_content self c cfg s = (r1, s1)"
      and "tool_calls_loop ex fcs acc s1 = (Inr ps, s2)"
      and "generate_content self c2 cfg2 s2 = (r2, s')"
  shows "issued s s' =
           Generate_content (model self) c cfg # map tool_event fcs
             @ [Generate_content (model self) c2 cfg2]"
  using generate_content_trace [OF assms(1)] tool_calls_loop_returned [OF assms(2)]
    generate_content_trace [OF assms(3)]
  by (auto simp: issued_def)

lemma generate_response_provider_configs:
  assumes "generate_response types self q h tds tm s = (res, s')"
  shows "(case add_tools types tds (base_config h) of
            Inl e \<Rightarrow> provider_configs (issued s s') = []
          | Inr config \<Rightarrow>
              provider_configs (issued s s') = [config] \<or>
              provider_configs (issued s s') = [config, config\<lparr>tools := None\<rparr>])"
  using assms
proof (cases rule: generate_response_cases)
  case (config_failure e)
  then show ?thesis by (simp add: issued_def)
next
  case (provider_failure config e)
  then show ?thesis by (simp add: issued_first)
next
  case (direct config response)
  then show ?thesis by (simp add: issued_first)
next
  case (tool_failure config response s1 ex fcs e)
  from issued_tool_failure [OF tool_failure(2,7)] tool_failure(1) show ?thesis
    by (auto simp: provider_configs_tool_events)
next
  case (follow_up config response s1 ex fcs ps s2 r2)
  from issued_follow_up [OF follow_up(2,7,8)] follow_up(1) show ?thesis
    by (simp add: provider_configs_append provider_configs_tool_events)
qed

lemma first_config:
  assumes run: "generate_response types self q h tds tm s = (res, s')"
      and first: "provider_configs (issued s s') = cfg # rest"
  shows "add_tools types tds (base_config h) = Inr cfg"
  using generate_response_provider_configs [OF run] first
  by (cases "add_tools types tds (base_config h)") auto

lemma two_calls_follow_up:
  assumes run: "generate_response types self q h tds tm s = (res, s')"
      and two: "length (provider_configs (issued s s')) = 2"
  obtains config response s1 ex fcs ps s2 r2 where
      "add_tools types tds (base_config h) = Inr config"
      "generate_content self (user_message q) config s = (Inr response, s1)"
      "tm = Some ex" "tool_manager_bool ex" "function_calls response = Some fcs" "fcs \<noteq> []"
      "tool_calls_loop ex fcs [] s1 = (Inr ps, s2)"
      "generate_content self
         (user_message q @ [candidate_content response, \<lparr>role = ''user'', parts = ps\<rparr>])
         (config\<lparr>tools := None\<rparr>) s2 = (r2, s')"
      "res = (case r2 of Inl e \<Rightarrow> Inl e | Inr final_response \<Rightarrow> Inr (text final_response))"
  using run
proof (cases rule: generate_response_cases)
  case (config_failure e)
  with two show ?thesis by (simp add: issued_def)
next
  case (provider_failure config e)
  with two show ?thesis by (simp add: issued_first)
next
  case (direct config response)
  with two show ?thesis by (simp add: issued_first)
next
  case (tool_failure config response s1 ex fcs e)
  from issued_tool_failure [OF tool_failure(2,7)] two show ?thesis
    by (auto simp: provider_configs_tool_events)
next
  case (follow_up config response s1 ex fcs ps s2 r2)
  then show ?thesis by (rule that)
qed

subsection \<open>Tool rounds\<close>

text \<open>
  The two ways a tool round ends, from what the tool manager does: every request returns,
  or the requests \<open>pre\<close> return and the next one raises.
\<close>

lemma tool_round_returns:
  assumes config: "add_tools types tds (base_config h) = Inr config"
      and first: "generate_content self (user_message q) config s = (Inr response, s1)"
      and fcs: "function_calls response = Some fcs" "fcs \<noteq> []"
      and truth: "tool_manager_bool ex"
      and returns: "tools_return ex fcs (env s1) vs w2"
      and answer: "client self (model self)
                     (user_message q @ [candidate_content response,
                        \<lparr>role = ''user'', parts = map2 result_part fcs vs\<rparr>])
                     (config\<lparr>tools := None\<rparr>) w2 = (r2, w3)"
  shows "generate_response types self q h tds (Some ex) s =
           ((case r2 of Inl e \<Rightarrow> Inl e | Inr final_response \<Rightarrow> Inr (text final_response)),
            \<lparr>env = w3,
             trace = trace s @ Generate_content (model self) (user_message q) config
               # map tool_event fcs
               @ [Generate_content (model self)
                    (user_message q @ [candidate_content response,
                       \<lparr>role = ''user'', parts = map2 result_part fcs vs\<rparr>])
                    (config\<lparr>tools := None\<rparr>)]\<rparr>)"
proof -
  let ?s2 = "\<lparr>env = w2, trace = trace s1 @ map tool_event fcs\<rparr>"
  let ?c2 = "user_message q @ [candidate_content response,
               \<lparr>role = ''user'', parts = map2 result_part fcs vs\<rparr>]"
  from tool_calls_loop_returns [OF returns, of "[]"]
  have loop: "tool_calls_loop ex fcs [] s1 = (Inr (map2 result_part fcs vs), ?s2)" by simp
  from answer have "client self (model self) ?c2 (config\<lparr>tools := None\<rparr>) (env ?s2) = (r2, w3)"
    by simp
  note g2 = generate_content_by_client [OF this]
  from fcs have "truthy (function_calls response)" by simp
  from generate_response_round [OF config first this truth]
    handle_tool_execution_completed [OF fcs(1) loop g2]
    generate_content_trace [OF first]
  show ?thesis by simp
qed

lemma tool_round_raises:
  assumes config: "add_tools types tds (base_config h) = Inr config"
      and first: "generate_content self (user_message q) config s = (Inr response, s1)"
      and fcs: "function_calls response = Some (pre @ fc # post)"
      and truth: "tool_manager_bool ex"
      and returns: "tools_return ex pre (env s1) vs w"
      and kw: "args fc = Some kw"
      and raises: "tool_manager_execute_tool ex (name fc) kw w = (Inl e, w')"
  shows "generate_response types self q h tds (Some ex) s =
           (Inl e,
            \<lparr>env = w',
             trace = trace s @ Generate_content (model self) (user_message q) config
               # map tool_event (pre @ [fc])\<rparr>)"
proof -
  from fcs have "truthy (function_calls response)" by simp
  from generate_response_round [OF config first this truth]
    handle_tool_execution_failed [OF fcs tool_calls_loop_raises [OF kw returns raises]]
    generate_content_trace [OF first]
  show ?thesis by simp
qed

subsection \<open>Facts about the concrete collaborators\<close>

lemma trace_start: "trace start = []"
  by (simp add: start_def)

lemma scripted_model: "model (scripted_generator first) = ''gemini''"
  by (simp add: scripted_generator_def)

lemma scripted_first_call:
  "generate_content (scripted_generator first) c cfg start =
     (Inr first, \<lparr>env = 1, trace = [Generate_content ''gemini'' c cfg]\<rparr>)"
  by (simp add: generate_content_def scripted_generator_def scripted_client_def start_def)

lemma scripted_later_call:
  "client (scripted_generator first) m c cfg (Suc n) =
     (Inr (text_answer ''Lesson 3 covers sorting algorithms, including quicksort.''), Suc (Suc n))"
  by (simp add: scripted_generator_def scripted_client_def)

lemma requesting_simps:
  "function_calls (requesting fcs) = Some fcs"
  "text (requesting fcs) = None"
  "candidate_content (requesting fcs) = \<lparr>role = ''model'', parts = map Part_function_call fcs\<rparr>"
  by (simp_all add: requesting_def)

lemma text_answer_simps:
  "function_calls (text_answer t) = None"
  "text (text_answer t) = Some t"
  by (simp_all add: text_answer_def)

lemma tools_knowing_simps:
  "tool_manager_bool (tools_knowing names) = True"
  "tool_manager_execute_tool (tools_knowing names) n kw w =
     (if n \<in> set names then (Inr (JDict ((''tool'', JStr n) # kw)), Suc w)
      else (Inl (Raised ''NotFoundError''), Suc w))"
  by (simp_all add: tools_knowing_def)

lemma false_tools_bool: "tool_manager_bool false_tools = False"
  by (simp add: false_tools_def)

lemma search_tools:
  "add_tools library_types (Some [search_tool]) (base_config None) = Inr search_config"
  by (simp add: add_tools_def build_gemini_tools_def getitem_def base_config_def
        build_system_instruction_def search_tool_def search_config_def library_types_def)

lemma call_simps:
  "name search_call = ''search_course_content''"
  "args search_call = Some [(''course'', JStr ''X''), (''lesson'', JInt 3)]"
  "name outline_call = ''get_course_outline''"
  "args outline_call = Some [(''course'', JStr ''X'')]"
  by (simp_all add: search_call_def outline_call_def)

lemma call_events:
  "tool_event search_call =
     Execute_tool ''search_course_content'' [(''course'', JStr ''X''), (''lesson'', JInt 3)]"
  "tool_event outline_call = Execute_tool ''get_course_outline'' [(''course'', JStr ''X'')]"
  by (simp_all add: tool_event_def call_simps)

section \<open>The claims\<close>

subsection \<open>The system instruction\<close>

text \<open>
  C6, as stated, at a history that is present and empty: the claim gives the base
  instruction followed by the previous-conversation section (with nothing after the
  heading); the code gives the base instruction alone.
\<close>

theorem present_but_empty_history_counterexample:
  "build_system_instruction SYSTEM_PROMPT (Some '''')
     \<noteq> SYSTEM_PROMPT @ ''\<newline>\<newline>Previous conversation:\<newline>'' @ ''''"
  by (simp add: build_system_instruction_def)

text \<open>
  C6, amended: for every base instruction, an absent history and an empty history give
  the base instruction unchanged; a history that is not empty gives the base instruction,
  then a blank line, the heading \<open>Previous conversation:\<close> on a line of its own, and the
  whole history, unchanged and untruncated. \<open>generate_response\<close> builds the instruction of
  its config from \<open>SYSTEM_PROMPT\<close> in this way.
\<close>

theorem system_instruction_by_history:
  "build_system_instruction base None = base \<and>
   build_system_instruction base (Some '''') = base \<and>
   (hist \<noteq> '''' \<longrightarrow>
      build_system_instruction base (Some hist)
        = base @ ''\<newline>\<newline>Previous conversation:\<newline>'' @ hist) \<and>
   system_instruction (base_config (Some hist)) = build_system_instruction SYSTEM_PROMPT (Some hist)"
  by (simp add: build_system_instruction_def previous_conversation_def base_config_def)

text \<open>The amended C6 on the base instruction \<open>Be brief.\<close> and the history \<open>User: hi\<close>.\<close>

theorem system_instruction_by_history_witness:
  "build_system_instruction ''Be brief.'' None = ''Be brief.'' \<and>
   build_system_instruction ''Be brief.'' (Some '''') = ''Be brief.'' \<and>
   build_system_instruction ''Be brief.'' (Some ''User: hi'')
     = ''Be brief.\<newline>\<newline>Previous conversation:\<newline>User: hi''"
  using system_instruction_by_history [of "''Be brief.''" "''User: hi''"] by simp

text \<open>
  C9: a history that is the empty string is treated as an absent history. The built
  instruction is the same, the instruction of the config is the bare \<open>SYSTEM_PROMPT\<close>, and
  the whole invocation behaves as the one without history.
\<close>

theorem empty_history_like_absent:
  "build_system_instruction base (Some '''') = build_system_instruction base None \<and>
   system_instruction (base_config (Some '''')) = SYSTEM_PROMPT \<and>
   generate_response types self q (Some '''') tds tm s
     = generate_response types self q None tds tm s"
  by (simp add: build_system_instruction_def base_config_def generate_response_def)

text \<open>C9 on a provider that answers with text: the call carries the bare prompt.\<close>

theorem empty_history_like_absent_witness:
  "generate_response library_types
       (scripted_generator (text_answer ''Recursion is a technique where a function calls itself.''))
       ''What is recursion?'' (Some '''') None None start =
     (Inr (Some ''Recursion is a technique where a function calls itself.''),
      \<lparr>env = 1,
       trace = [Generate_content ''gemini'' (user_message ''What is recursion?'')
                  \<lparr>system_instruction = SYSTEM_PROMPT, temperature = 0,
                   max_output_tokens = 800, tools = None\<rparr>]\<rparr>)"
proof -
  let ?self = "scripted_generator (text_answer ''Recursion is a technique where a function calls itself.'')"
  have "generate_response library_types ?self ''What is recursion?'' None None None start =
     (Inr (Some ''Recursion is a technique where a function calls itself.''),
      \<lparr>env = 1,
       trace = [Generate_content ''gemini'' (user_message ''What is recursion?'')
                  (base_config None)]\<rparr>)"
    using generate_response_direct [OF no_catalog scripted_first_call,
        of "text_answer ''Recursion is a technique where a function calls itself.''" None]
    by (simp add: text_answer_simps)
  with empty_history_like_absent
    [of "''x''" library_types ?self "''What is recursion?''" None None start]
  show ?thesis by (simp add: base_config_def build_system_instruction_def)
qed

text \<open>
  C8: the builder of the system instruction is a function of the base instruction and the
  history alone; it takes no world and returns none. Without a history it returns the base
  instruction. Any two invocations with the same history, whatever their generators,
  queries, catalogs, tool managers and worlds, send the same instruction in each of their
  provider calls: the one built from \<open>SYSTEM_PROMPT\<close> and the history.
\<close>

theorem system_instruction_function_of_history:
  assumes "generate_response types self q h tds tm s = (res, s')"
      and "generate_response types2 self2 q2 h tds2 tm2 t = (res2, t')"
  shows "build_system_instruction base None = base \<and>
         (\<forall>c \<in> set (provider_configs (issued s s')).
            \<forall>c2 \<in> set (provider_configs (issued t t')).
              system_instruction c = build_system_instruction SYSTEM_PROMPT h \<and>
              system_instruction c2 = system_instruction c)"
proof -
  have *: "\<forall>c \<in> set (provider_configs (issued u u')).
             system_instruction c = build_system_instruction SYSTEM_PROMPT h"
    if "generate_response ty g x h ds m u = (r, u')" for ty g x ds m r and u u' :: "'x world"
    using generate_response_provider_configs [OF that]
    by (cases "add_tools ty ds (base_config h)") (auto simp: add_tools_config(3))
  from * [OF assms(1)] * [OF assms(2)] show ?thesis
    by (simp add: build_system_instruction_absent)
qed

text \<open>
  C8 on two invocations with the history \<open>User: hi\<close>, one without a catalog and one with
  an empty catalog and a tool manager.
\<close>

theorem system_instruction_function_of_history_witness:
  "fst (generate_response library_types
          (scripted_generator (text_answer ''Recursion is a technique where a function calls itself.''))
          ''What is recursion?'' (Some ''User: hi'') None None start)
     = Inr (Some ''Recursion is a technique where a function calls itself.'') \<and>
   system_instruction (base_config (Some ''User: hi''))
     = SYSTEM_PROMPT @ ''\<newline>\<newline>Previous conversation:\<newline>User: hi'' \<and>
   build_system_instruction ''Be brief.'' None = ''Be brief.''"
proof -
  let ?self = "scripted_generator (text_answer ''Recursion is a technique where a function calls itself.'')"
  let ?answer = "Inr (Some ''Recursion is a technique where a function calls itself.'')"
  have r1: "generate_response library_types ?self ''What is recursion?'' (Some ''User: hi'')
              None None start =
            (?answer,
             \<lparr>env = 1, trace = [Generate_content ''gemini'' (user_message ''What is recursion?'')
                                  (base_config (Some ''User: hi''))]\<rparr>)"
    using generate_response_direct [OF no_catalog scripted_first_call,
        of "text_answer ''Recursion is a technique where a function calls itself.''" None]
    by (simp add: text_answer_simps)
  have r2: "generate_response library_types ?self ''And iteration?'' (Some ''User: hi'')
              (Some []) (Some (tools_knowing [])) start =
            (?answer,
             \<lparr>env = 1, trace = [Generate_content ''gemini'' (user_message ''And iteration?'')
                                  (base_config (Some ''User: hi''))]\<rparr>)"
    using generate_response_direct [OF empty_catalog scripted_first_call,
        of "text_answer ''Recursion is a technique where a function calls itself.''"
           "Some (tools_knowing [])"]
    by (simp add: text_answer_simps)
  from system_instruction_function_of_history [OF r1 r2, of "''Be brief.''"] r1
  show ?thesis
    by (simp add: issued_def trace_start build_system_instruction_def previous_conversation_def)
qed

subsection \<open>The decision after the first response\<close>

text \<open>
  C2, as stated, on a first response that requests a search, with a tool manager
  supplied. The claim has the round entered, the tools executed and a second call issued.
  With a tool manager whose truth value is false the code returns the text of the first
  response (there is none) after one provider call and no tool call; with a tool manager
  that raises for the search the round is entered and ends with the failure after one
  provider call.
\<close>

theorem supplied_executor_counterexample:
  "generate_response library_types (scripted_generator (requesting [search_call]))
       ''What does lesson 3 cover?'' None (Some [search_tool]) (Some false_tools) start =
     (Inr None,
      \<lparr>env = 1,
       trace = [Generate_content ''gemini'' (user_message ''What does lesson 3 cover?'')
                  search_config]\<rparr>) \<and>
   generate_response library_types (scripted_generator (requesting [search_call]))
       ''What does lesson 3 cover?'' None (Some [search_tool]) (Some (tools_knowing [])) start =
     (Inl (Raised ''NotFoundError''),
      \<lparr>env = 2,
       trace = [Generate_content ''gemini'' (user_message ''What does lesson 3 cover?'')
                  search_config,
                Execute_tool ''search_course_content''
                  [(''course'', JStr ''X''), (''lesson'', JInt 3)]]\<rparr>)"
proof (rule conjI)
  show "generate_response library_types (scripted_generator (requesting [search_call]))
       ''What does lesson 3 cover?'' None (Some [search_tool]) (Some false_tools) start =
     (Inr None,
      \<lparr>env = 1,
       trace = [Generate_content ''gemini'' (user_message ''What does lesson 3 cover?'')
                  search_config]\<rparr>)"
    using generate_response_direct [OF search_tools scripted_first_call,
        of "requesting [search_call]" "Some false_tools"]
    by (simp add: requesting_simps false_tools_bool)
next
  have returns: "tools_return (tools_knowing []) [] (env \<lparr>env = 1, trace = tr\<rparr>) [] 1"
    for tr :: "event list"
    by simp
  have raises: "tool_manager_execute_tool (tools_knowing []) (name search_call)
      [(''course'', JStr ''X''), (''lesson'', JInt 3)] 1 = (Inl (Raised ''NotFoundError''), 2)"
    by (simp add: tools_knowing_simps)
  from tool_round_raises [OF search_tools scripted_first_call, where pre = "[]" and post = "[]",
      OF _ _ returns call_simps(2) raises]
  show "generate_response library_types (scripted_generator (requesting [search_call]))
       ''What does lesson 3 cover?'' None (Some [search_tool]) (Some (tools_knowing [])) start =
     (Inl (Raised ''NotFoundError''),
      \<lparr>env = 2,
       trace = [Generate_content ''gemini'' (user_message ''What does lesson 3 cover?'')
                  search_config,
                Execute_tool ''search_course_content''
                  [(''course'', JStr ''X''), (''lesson'', JInt 3)]]\<rparr>)"
    by (simp add: requesting_simps tools_knowing_simps trace_start scripted_model call_events)
qed

text \<open>
  C2, amended: once the request is assembled and the provider has answered the first call,
  the invocation enters the tool round exactly when the response carries at least one
  tool-call request and a tool manager was supplied whose truth value is true. Its outcome
  is then the outcome of \<open>handle_tool_execution\<close> on that response, and when every request
  returns, each is executed, in order, and a second provider call is issued with the
  results. Otherwise the first response's text is returned at once, after that one
  provider call and no tool call; this includes a response with tool-call requests and no
  tool manager (or a false one), whose requests are dropped without a failure.
\<close>

theorem decision_point:
  assumes config: "add_tools types tds (base_config h) = Inr config"
      and first: "generate_content self (user_message q) config s = (Inr response, s1)"
  shows "(\<forall>ex. truthy (function_calls response) \<and> tm = Some ex \<and> tool_manager_bool ex \<longrightarrow>
            generate_response types self q h tds tm s =
              handle_tool_execution self response (user_message q) config ex s1) \<and>
         (\<forall>ex fcs vs w2.
            function_calls response = Some fcs \<and> fcs \<noteq> [] \<and> tm = Some ex \<and>
            tool_manager_bool ex \<and> tools_return ex fcs (env s1) vs w2 \<longrightarrow>
            issued s (snd (generate_response types self q h tds tm s)) =
              Generate_content (model self) (user_message q) config
                # map (\<lambda>fc. Execute_tool (name fc) (kwargs fc)) fcs
                @ [Generate_content (model self)
                     (user_message q
                        @ [candidate_content response,
                           \<lparr>role = ''user'',
                            parts = map2 (\<lambda>fc v. Part_function_response (name fc) [(''result'', v)])
                                      fcs vs\<rparr>])
                     (config\<lparr>tools := None\<rparr>)]) \<and>
         (\<not> (truthy (function_calls response) \<and> (\<exists>ex. tm = Some ex \<and> tool_manager_bool ex)) \<longrightarrow>
            generate_response types self q h tds tm s = (Inr (text response), s1) \<and>
            issued s s1 = [Generate_content (model self) (user_message q) config])"
proof (intro conjI allI impI)
  fix ex
  assume "truthy (function_calls response) \<and> tm = Some ex \<and> tool_manager_bool ex"
  with generate_response_round [OF config first, of ex]
  show "generate_response types self q h tds tm s =
          handle_tool_execution self response (user_message q) config ex s1"
    by simp
next
  fix ex fcs vs w2
  assume a: "function_calls response = Some fcs \<and> fcs \<noteq> [] \<and> tm = Some ex \<and>
            tool_manager_bool ex \<and> tools_return ex fcs (env s1) vs w2"
  let ?c2 = "user_message q @ [candidate_content response,
               \<lparr>role = ''user'', parts = map2 result_part fcs vs\<rparr>]"
  obtain r2 w3 where answer:
    "client self (model self) ?c2 (config\<lparr>tools := None\<rparr>) w2 = (r2, w3)"
    by (cases "client self (model self) ?c2 (config\<lparr>tools := None\<rparr>) w2")
  from a have fcs: "function_calls response = Some fcs" "fcs \<noteq> []"
    and truth: "tool_manager_bool ex" and returns: "tools_return ex fcs (env s1) vs w2"
    by simp_all
  have eqs: "map tool_event fcs = map (\<lambda>fc. Execute_tool (name fc) (kwargs fc)) fcs"
    "map2 result_part fcs vs
       = map2 (\<lambda>fc v. Part_function_response (name fc) [(''result'', v)]) fcs vs"
    by (simp_all add: tool_event_def result_part_def)
  from tool_round_returns [OF config first fcs truth returns answer] a
  show "issued s (snd (generate_response types self q h tds tm s)) =
              Generate_content (model self) (user_message q) config
                # map (\<lambda>fc. Execute_tool (name fc) (kwargs fc)) fcs
                @ [Generate_content (model self)
                     (user_message q
                        @ [candidate_content response,
                           \<lparr>role = ''user'',
                            parts = map2 (\<lambda>fc v. Part_function_response (name fc) [(''result'', v)])
                                      fcs vs\<rparr>])
                     (config\<lparr>tools := None\<rparr>)]"
    by (simp add: issued_def eqs)
next
  assume "\<not> (truthy (function_calls response) \<and> (\<exists>ex. tm = Some ex \<and> tool_manager_bool ex))"
  from generate_response_direct [OF config first this]
  show "generate_response types self q h tds tm s = (Inr (text response), s1)" .
next
  show "issued s s1 = [Generate_content (model self) (user_message q) config]"
    by (rule issued_first [OF first])
qed

text \<open>
  The amended C2 on the provider that requests a search: with a tool manager that knows
  the search the round is entered, the search executed and the follow-up call issued with
  its result; without a tool manager the text of the first response (there is none) is
  returned after one call.
\<close>

theorem decision_point_witness:
  "generate_response library_types (scripted_generator (requesting [search_call]))
     ''What does lesson 3 cover?'' None (Some [search_tool])
     (Some (tools_knowing [''search_course_content''])) start =
   handle_tool_execution (scripted_generator (requesting [search_call])) (requesting [search_call])
     (user_message ''What does lesson 3 cover?'') search_config
     (tools_knowing [''search_course_content''])
     \<lparr>env = 1,
      trace = [Generate_content ''gemini'' (user_message ''What does lesson 3 cover?'')
                 search_config]\<rparr> \<and>
   issued start
     (snd (generate_response library_types (scripted_generator (requesting [search_call]))
             ''What does lesson 3 cover?'' None (Some [search_tool])
             (Some (tools_knowing [''search_course_content''])) start)) =
     [Generate_content ''gemini'' (user_message ''What does lesson 3 cover?'') search_config,
      Execute_tool ''search_course_content'' [(''course'', JStr ''X''), (''lesson'', JInt 3)],
      Generate_content ''gemini''
        (user_message ''What does lesson 3 cover?''
           @ [\<lparr>role = ''model'', parts = [Part_function_call search_call]\<rparr>,
              \<lparr>role = ''user'',
               parts = [Part_function_response ''search_course_content''
                          [(''result'',
                            JDict [(''tool'', JStr ''search_course_content''),
                                   (''course'', JStr ''X''), (''lesson'', JInt 3)])]]\<rparr>])
        (search_config\<lparr>tools := None\<rparr>)] \<and>
   generate_response library_types (scripted_generator (requesting [search_call]))
     ''What does lesson 3 cover?'' None (Some [search_tool]) None start =
   (Inr None,
    \<lparr>env = 1,
     trace = [Generate_content ''gemini'' (user_message ''What does lesson 3 cover?'')
                search_config]\<rparr>)"
proof -
  let ?q = "''What does lesson 3 cover?''"
  let ?self = "scripted_generator (requesting [search_call])"
  let ?tm = "tools_knowing [''search_course_content'']"
  let ?v = "JDict [(''tool'', JStr ''search_course_content''),
                   (''course'', JStr ''X''), (''lesson'', JInt 3)]"
  note round = decision_point [OF search_tools scripted_first_call [of "requesting [search_call]" "user_message ?q"],
      where tm = "Some ?tm"]
  note plain = decision_point [OF search_tools scripted_first_call [of "requesting [search_call]" "user_message ?q"],
      where tm = None]
  have returns: "tools_return ?tm [search_call] 1 [?v] 2"
    by (simp add: call_simps tools_knowing_simps)
  from round [THEN conjunct1, THEN spec, of ?tm]
  have c1: "generate_response library_types ?self ?q None (Some [search_tool]) (Some ?tm) start =
      handle_tool_execution ?self (requesting [search_call]) (user_message ?q) search_config ?tm
        \<lparr>env = 1, trace = [Generate_content ''gemini'' (user_message ?q) search_config]\<rparr>"
    by (simp add: requesting_simps tools_knowing_simps)
  from round [THEN conjunct2, THEN conjunct1, THEN spec, THEN spec, THEN spec, THEN spec,
      of "[search_call]" ?tm "[?v]" 2] returns
  have c2: "issued start (snd (generate_response library_types ?self ?q None (Some [search_tool])
                    (Some ?tm) start)) =
          [Generate_content ''gemini'' (user_message ?q) search_config,
           Execute_tool ''search_course_content'' [(''course'', JStr ''X''), (''lesson'', JInt 3)],
           Generate_content ''gemini''
             (user_message ?q
                @ [\<lparr>role = ''model'', parts = [Part_function_call search_call]\<rparr>,
                   \<lparr>role = ''user'',
                    parts = [Part_function_response ''search_course_content'' [(''result'', ?v)]]\<rparr>])
             (search_config\<lparr>tools := None\<rparr>)]"
    by (simp add: requesting_simps tools_knowing_simps scripted_model call_simps)
  from plain [THEN conjunct2, THEN conjunct2]
  have c3: "generate_response library_types ?self ?q None (Some [search_tool]) None start =
      (Inr None, \<lparr>env = 1, trace = [Generate_content ''gemini'' (user_message ?q) search_config]\<rparr>)"
    by (simp add: requesting_simps)
  from c1 c2 c3 show ?thesis by (intro conjI)
qed



subsection \<open>The tool round\<close>

text \<open>
  C1, as stated, on a first response with two requests, a search and a course outline, and
  a tool manager that knows the search only and raises \<open>NotFoundError\<close> for the outline.
  The claim has the failure wrapped as that request's result, a follow-up call and a text
  answer. The code ends the invocation with the failure: the search and the outline were
  handed to the tool manager, the provider was called once, no follow-up call was made and
  no text is returned.
\<close>

theorem raising_tool_counterexample:
  "generate_response library_types (scripted_generator (requesting [search_call, outline_call]))
       ''What is in course X?'' None (Some [search_tool])
       (Some (tools_knowing [''search_course_content''])) start =
     (Inl (Raised ''NotFoundError''),
      \<lparr>env = 3,
       trace =
         [Generate_content ''gemini'' (user_message ''What is in course X?'') search_config,
          Execute_tool ''search_course_content''
            [(''course'', JStr ''X''), (''lesson'', JInt 3)],
          Execute_tool ''get_course_outline'' [(''course'', JStr ''X'')]]\<rparr>)"
proof -
  let ?tm = "tools_knowing [''search_course_content'']"
  have fcs: "function_calls (requesting [search_call, outline_call])
      = Some ([search_call] @ outline_call # [])"
    by (simp add: requesting_simps)
  have returns: "tools_return ?tm [search_call] (env \<lparr>env = 1, trace = tr\<rparr>)
      [JDict [(''tool'', JStr ''search_course_content''),
              (''course'', JStr ''X''), (''lesson'', JInt 3)]] 2" for tr :: "event list"
    by (simp add: call_simps tools_knowing_simps)
  have raises: "tool_manager_execute_tool ?tm (name outline_call) [(''course'', JStr ''X'')] 2
      = (Inl (Raised ''NotFoundError''), 3)"
    by (simp add: call_simps tools_knowing_simps)
  from tool_round_raises [OF search_tools scripted_first_call fcs _ returns call_simps(4) raises]
  show ?thesis
    by (simp add: tools_knowing_simps trace_start scripted_model call_events)
qed

text \<open>
  C1, amended: for every invocation in which the first provider response contains tool-call
  requests and a tool manager is supplied (and true), if the tool manager raises a failure
  for one of the requests, the requests before it having returned, the failure is not
  wrapped as a result: it is the outcome of the invocation. The tool manager has been
  called for the requests up to the failing one, in order, and for none after it; no
  follow-up turn is built, the provider is not called a second time and no text answer is
  returned. Each call of the tool manager is made in the environment that the call before
  it left.
\<close>

theorem tool_failure_propagates:
  assumes config: "add_tools types tds (base_config h) = Inr config"
      and first: "generate_content self (user_message q) config s = (Inr response, s1)"
      and fcs: "function_calls response = Some (pre @ fc # post)"
      and truth: "tool_manager_bool ex"
      and returns: "tools_return ex pre (env s1) vs w"
      and kw: "args fc = Some kw"
      and raises: "tool_manager_execute_tool ex (name fc) kw w = (Inl e, w')"
  shows "generate_response types self q h tds (Some ex) s =
           (Inl e,
            \<lparr>env = w',
             trace = trace s @ Generate_content (model self) (user_message q) config
               # map (\<lambda>fc. Execute_tool (name fc) (kwargs fc)) (pre @ [fc])\<rparr>)"
proof -
  have "map tool_event (pre @ [fc]) = map (\<lambda>fc. Execute_tool (name fc) (kwargs fc)) (pre @ [fc])"
    by (simp add: tool_event_def)
  with tool_round_raises [OF config first fcs truth returns kw raises] show ?thesis by simp
qed

text \<open>
  The amended C1 on the two requests above: the search returns, the outline raises.
\<close>

theorem tool_failure_propagates_witness:
  "generate_response library_types (scripted_generator (requesting [search_call, outline_call]))
       ''What is in course X?'' None (Some [search_tool])
       (Some (tools_knowing [''search_course_content''])) start =
     (Inl (Raised ''NotFoundError''),
      \<lparr>env = 3,
       trace =
         [Generate_content ''gemini'' (user_message ''What is in course X?'') search_config,
          Execute_tool ''search_course_content''
            [(''course'', JStr ''X''), (''lesson'', JInt 3)],
          Execute_tool ''get_course_outline'' [(''course'', JStr ''X'')]]\<rparr>) \<and>
   tool_manager_execute_tool (tools_knowing [''search_course_content''])
       ''get_course_outline'' [(''course'', JStr ''X'')] 2
     = (Inl (Raised ''NotFoundError''), 3)"
proof -
  let ?tm = "tools_knowing [''search_course_content'']"
  have fcs: "function_calls (requesting [search_call, outline_call])
      = Some ([search_call] @ outline_call # [])"
    by (simp add: requesting_simps)
  have truth: "tool_manager_bool ?tm" by (simp add: tools_knowing_simps)
  have returns: "tools_return ?tm [search_call] (env \<lparr>env = 1, trace = tr\<rparr>)
      [JDict [(''tool'', JStr ''search_course_content''),
              (''course'', JStr ''X''), (''lesson'', JInt 3)]] 2" for tr :: "event list"
    by (simp add: call_simps tools_knowing_simps)
  have raises: "tool_manager_execute_tool ?tm (name outline_call) [(''course'', JStr ''X'')] 2
      = (Inl (Raised ''NotFoundError''), 3)"
    by (simp add: call_simps tools_knowing_simps)
  from tool_failure_propagates
    [OF search_tools scripted_first_call fcs truth returns call_simps(4) raises] raises
  show ?thesis
    by (simp add: trace_start scripted_model call_simps)
qed

subsection \<open>The results sent back to the model\<close>

text \<open>
  C4, as stated, on a first response with two requests, a course outline and then a
  search, and the tool manager that knows the search only. The claim has the tool manager
  called once for each request and one new turn of two result parts appended. The
  code calls it for the outline, which raises, and never for the search; no turn is
  appended and no follow-up call is made.
\<close>

theorem first_tool_raises_counterexample:
  "generate_response library_types (scripted_generator (requesting [outline_call, search_call]))
       ''What is in course X?'' None (Some [search_tool])
       (Some (tools_knowing [''search_course_content''])) start =
     (Inl (Raised ''NotFoundError''),
      \<lparr>env = 2,
       trace =
         [Generate_content ''gemini'' (user_message ''What is in course X?'') search_config,
          Execute_tool ''get_course_outline'' [(''course'', JStr ''X'')]]\<rparr>)"
proof -
  let ?tm = "tools_knowing [''search_course_content'']"
  have fcs: "function_calls (requesting [outline_call, search_call])
      = Some ([] @ outline_call # [search_call])"
    by (simp add: requesting_simps)
  have returns: "tools_return ?tm [] (env \<lparr>env = 1, trace = tr\<rparr>) [] 1" for tr :: "event list"
    by simp
  have raises: "tool_manager_execute_tool ?tm (name outline_call) [(''course'', JStr ''X'')] 1
      = (Inl (Raised ''NotFoundError''), 2)"
    by (simp add: call_simps tools_knowing_simps)
  from tool_round_raises [OF search_tools scripted_first_call fcs _ returns call_simps(4) raises]
  show ?thesis
    by (simp add: tools_knowing_simps trace_start scripted_model call_events)
qed

text \<open>
  C4, amended: for a first response with N requests (N at least 1) and a tool manager
  supplied (and true), when each of the N calls returns, each made in the environment
  that the call before it left: the tool manager is called once per request, one after the
  other, in the order of the requests, with the request's name and arguments, and exactly
  one new turn is appended after the model's turn, of role \<open>user\<close>, whose content is N
  parts in the same order, the i-th part a function response tagged with the name of the
  i-th request and holding the value returned for it. The follow-up call carries this
  history, and nothing else is issued.
\<close>

theorem tool_results_in_order:
  assumes config: "add_tools types tds (base_config h) = Inr config"
      and first: "generate_content self (user_message q) config s = (Inr response, s1)"
      and fcs: "function_calls response = Some fcs" "fcs \<noteq> []"
      and truth: "tool_manager_bool ex"
      and returns: "tools_return ex fcs (env s1) vs w2"
  shows "length vs = length fcs \<and>
         list_all (\<lambda>fc. args fc = Some (kwargs fc)) fcs \<and>
         generate_response types self q h tds (Some ex) s =
           (case client self (model self)
                   (user_message q
                      @ [candidate_content response,
                         \<lparr>role = ''user'',
                          parts = map2 (\<lambda>fc v. Part_function_response (name fc) [(''result'', v)])
                                    fcs vs\<rparr>])
                   (config\<lparr>tools := None\<rparr>) w2 of
              (r2, w3) \<Rightarrow>
                ((case r2 of Inl e \<Rightarrow> Inl e | Inr final_response \<Rightarrow> Inr (text final_response)),
                 \<lparr>env = w3,
                  trace = trace s @ Generate_content (model self) (user_message q) config
                    # map (\<lambda>fc. Execute_tool (name fc) (kwargs fc)) fcs
                    @ [Generate_content (model self)
                         (user_message q
                            @ [candidate_content response,
                               \<lparr>role = ''user'',
                                parts = map2 (\<lambda>fc v. Part_function_response (name fc) [(''result'', v)])
                                          fcs vs\<rparr>])
                         (config\<lparr>tools := None\<rparr>)]\<rparr>))"
proof (intro conjI)
  show "length vs = length fcs" by (rule tools_return_length [OF returns])
  show "list_all (\<lambda>fc. args fc = Some (kwargs fc)) fcs"
    by (rule tools_return_args [OF returns])
next
  let ?c2 = "user_message q @ [candidate_content response,
               \<lparr>role = ''user'', parts = map2 result_part fcs vs\<rparr>]"
  have eqs: "map tool_event fcs = map (\<lambda>fc. Execute_tool (name fc) (kwargs fc)) fcs"
    "map2 result_part fcs vs
       = map2 (\<lambda>fc v. Part_function_response (name fc) [(''result'', v)]) fcs vs"
    by (simp_all add: tool_event_def result_part_def)
  obtain r2 w3 where answer:
    "client self (model self) ?c2 (config\<lparr>tools := None\<rparr>) w2 = (r2, w3)"
    by (cases "client self (model self) ?c2 (config\<lparr>tools := None\<rparr>) w2")
  from tool_round_returns [OF config first fcs truth returns answer] answer
  show "generate_response types self q h tds (Some ex) s =
           (case client self (model self)
                   (user_message q
                      @ [candidate_content response,
                         \<lparr>role = ''user'',
                          parts = map2 (\<lambda>fc v. Part_function_response (name fc) [(''result'', v)])
                                    fcs vs\<rparr>])
                   (config\<lparr>tools := None\<rparr>) w2 of
              (r2, w3) \<Rightarrow>
                ((case r2 of Inl e \<Rightarrow> Inl e | Inr final_response \<Rightarrow> Inr (text final_response)),
                 \<lparr>env = w3,
                  trace = trace s @ Generate_content (model self) (user_message q) config
                    # map (\<lambda>fc. Execute_tool (name fc) (kwargs fc)) fcs
                    @ [Generate_content (model self)
                         (user_message q
                            @ [candidate_content response,
                               \<lparr>role = ''user'',
                                parts = map2 (\<lambda>fc v. Part_function_response (name fc) [(''result'', v)])
                                          fcs vs\<rparr>])
                         (config\<lparr>tools := None\<rparr>)]\<rparr>))"
    by (simp add: eqs)
qed

text \<open>
  The amended C4 on a first response with two requests, the search and then the course
  outline, and a tool manager that knows both: two calls, in this order, and one turn with
  the two results in this order.
\<close>

theorem tool_results_in_order_witness:
  "generate_response library_types (scripted_generator (requesting [search_call, outline_call]))
       ''What is in course X?'' None (Some [search_tool])
       (Some (tools_knowing [''search_course_content'', ''get_course_outline''])) start =
     (Inr (Some ''Lesson 3 covers sorting algorithms, including quicksort.''),
      \<lparr>env = 4,
       trace =
         [Generate_content ''gemini'' (user_message ''What is in course X?'') search_config,
          Execute_tool ''search_course_content''
            [(''course'', JStr ''X''), (''lesson'', JInt 3)],
          Execute_tool ''get_course_outline'' [(''course'', JStr ''X'')],
          Generate_content ''gemini''
            (user_message ''What is in course X?''
               @ [\<lparr>role = ''model'',
                   parts = [Part_function_call search_call, Part_function_call outline_call]\<rparr>,
                  \<lparr>role = ''user'',
                   parts =
                     [Part_function_response ''search_course_content''
                        [(''result'',
                          JDict [(''tool'', JStr ''search_course_content''),
                                 (''course'', JStr ''X''), (''lesson'', JInt 3)])],
                      Part_function_response ''get_course_outline''
                        [(''result'',
                          JDict [(''tool'', JStr ''get_course_outline''),
                                 (''course'', JStr ''X'')])]]\<rparr>])
            (search_config\<lparr>tools := None\<rparr>)]\<rparr>)"
proof -
  let ?tm = "tools_knowing [''search_course_content'', ''get_course_outline'']"
  have fcs: "function_calls (requesting [search_call, outline_call])
      = Some [search_call, outline_call]" "[search_call, outline_call] \<noteq> []"
    by (simp_all add: requesting_simps)
  have truth: "tool_manager_bool ?tm" by (simp add: tools_knowing_simps)
  have returns: "tools_return ?tm [search_call, outline_call] (env \<lparr>env = 1, trace = tr\<rparr>)
      [JDict [(''tool'', JStr ''search_course_content''),
              (''course'', JStr ''X''), (''lesson'', JInt 3)],
       JDict [(''tool'', JStr ''get_course_outline''), (''course'', JStr ''X'')]] 3"
    for tr :: "event list"
    by (simp add: call_simps tools_knowing_simps numeral_3_eq_3 numeral_2_eq_2)
  from tool_results_in_order [OF search_tools scripted_first_call fcs truth returns]
  show ?thesis
    by (simp add: requesting_simps scripted_model call_simps text_answer_simps trace_start
          scripted_later_call eval_nat_numeral)
qed

text \<open>
  C10: whenever the follow-up call is issued, it is the last thing the invocation issues,
  and the last turn of its history holds one part for every tool call, in the order of the
  requests: a function response with the request's name whose payload is the one-key
  mapping from \<open>result\<close> to the value that the tool manager returned for that request,
  called with the request's name and arguments in the environment the call before it left.
\<close>

theorem result_payload:
  assumes config: "add_tools types tds (base_config h) = Inr config"
      and first: "generate_content self (user_message q) config s = (Inr response, s1)"
      and fcs: "function_calls response = Some fcs"
      and run: "generate_response types self q h tds (Some ex) s = (res, s')"
      and two: "length (provider_configs (issued s s')) = 2"
  shows "\<exists>vs w2.
           tools_return ex fcs (env s1) vs w2 \<and> length vs = length fcs \<and>
           last (issued s s') =
             Generate_content (model self)
               (user_message q
                  @ [candidate_content response,
                     \<lparr>role = ''user'',
                      parts = map2 (\<lambda>fc v. Part_function_response (name fc) [(''result'', v)])
                                fcs vs\<rparr>])
               (config\<lparr>tools := None\<rparr>)"
  using run two
proof (cases rule: two_calls_follow_up)
  case (1 config' response' s1' ex' fcs' ps s2 r2)
  with config first fcs have eq: "config' = config" "response' = response" "s1' = s1"
    "ex' = ex" "fcs' = fcs" by simp_all
  note loop = 1(7) [unfolded eq]
  note g2 = 1(8) [unfolded eq]
  from tool_calls_loop_returned [OF loop] obtain vs where
    returns: "tools_return ex fcs (env s1) vs (env s2)"
    and ps: "ps = map2 result_part fcs vs"
    by auto
  have "map2 result_part fcs vs
       = map2 (\<lambda>fc v. Part_function_response (name fc) [(''result'', v)]) fcs vs"
    by (simp add: result_part_def)
  with issued_follow_up [OF first loop g2] ps
  have "last (issued s s') =
             Generate_content (model self)
               (user_message q
                  @ [candidate_content response,
                     \<lparr>role = ''user'',
                      parts = map2 (\<lambda>fc v. Part_function_response (name fc) [(''result'', v)])
                                fcs vs\<rparr>])
               (config\<lparr>tools := None\<rparr>)"
    by simp
  with returns tools_return_length [OF returns] show ?thesis by blast
qed

text \<open>
  C10 on the two requests and the tool manager that knows both: the follow-up call
  carries, for each request, the value returned for it under the key \<open>result\<close>.
\<close>

theorem result_payload_witness:
  "last (issued start
      (snd (generate_response library_types
              (scripted_generator (requesting [search_call, outline_call]))
              ''What is in course X?'' None (Some [search_tool])
              (Some (tools_knowing [''search_course_content'', ''get_course_outline''])) start)))
    = Generate_content ''gemini''
        (user_message ''What is in course X?''
           @ [\<lparr>role = ''model'',
               parts = [Part_function_call search_call, Part_function_call outline_call]\<rparr>,
              \<lparr>role = ''user'',
               parts =
                 [Part_function_response ''search_course_content''
                    [(''result'',
                      JDict [(''tool'', JStr ''search_course_content''),
                             (''course'', JStr ''X''), (''lesson'', JInt 3)])],
                  Part_function_response ''get_course_outline''
                    [(''result'',
                      JDict [(''tool'', JStr ''get_course_outline''),
                             (''course'', JStr ''X'')])]]\<rparr>])
        (search_config\<lparr>tools := None\<rparr>)"
proof -
  let ?q = "''What is in course X?''"
  let ?self = "scripted_generator (requesting [search_call, outline_call])"
  let ?tm = "tools_knowing [''search_course_content'', ''get_course_outline'']"
  let ?run = "generate_response library_types ?self ?q None (Some [search_tool]) (Some ?tm) start"
  let ?v1 = "JDict [(''tool'', JStr ''search_course_content''),
                    (''course'', JStr ''X''), (''lesson'', JInt 3)]"
  let ?v2 = "JDict [(''tool'', JStr ''get_course_outline''), (''course'', JStr ''X'')]"
  have fcs: "function_calls (requesting [search_call, outline_call])
      = Some [search_call, outline_call]" "[search_call, outline_call] \<noteq> []"
    by (simp_all add: requesting_simps)
  have truth: "tool_manager_bool ?tm" by (simp add: tools_knowing_simps)
  have returns: "tools_return ?tm [search_call, outline_call] (env \<lparr>env = 1, trace = tr\<rparr>)
      [?v1, ?v2] 3" for tr :: "event list"
    by (simp add: call_simps tools_knowing_simps numeral_3_eq_3 numeral_2_eq_2)
  have run: "?run = (fst ?run, snd ?run)" by simp
  have tr: "trace (snd ?run) =
      [Generate_content ''gemini'' (user_message ?q) search_config,
       tool_event search_call, tool_event outline_call,
       Generate_content ''gemini''
         (user_message ?q
            @ [candidate_content (requesting [search_call, outline_call]),
               \<lparr>role = ''user'', parts = map2 result_part [search_call, outline_call] [?v1, ?v2]\<rparr>])
         (search_config\<lparr>tools := None\<rparr>)]"
    using tool_round_returns [OF search_tools scripted_first_call fcs truth returns,
        where ?r2.0 = "Inr (text_answer ''Lesson 3 covers sorting algorithms, including quicksort.'')"
          and ?w3.0 = 4]
    by (simp add: scripted_model trace_start scripted_later_call eval_nat_numeral)
  then have two: "length (provider_configs (issued start (snd ?run))) = 2"
    by (simp add: issued_def trace_start call_events)
  from result_payload [OF search_tools scripted_first_call fcs(1) run two]
  obtain vs w2 where
    returned: "tools_return ?tm [search_call, outline_call] 1 vs w2"
    and lastev: "last (issued start (snd ?run)) =
      Generate_content (model ?self)
        (user_message ?q
           @ [candidate_content (requesting [search_call, outline_call]),
              \<lparr>role = ''user'',
               parts = map2 (\<lambda>fc v. Part_function_response (name fc) [(''result'', v)])
                         [search_call, outline_call] vs\<rparr>])
        (search_config\<lparr>tools := None\<rparr>)"
    by auto
  from returned have "vs = [?v1, ?v2]"
    by (auto simp: call_simps tools_knowing_simps split: list.splits)
  with lastev show ?thesis
    by (simp add: requesting_simps scripted_model call_simps)
qed

subsection \<open>The first provider call\<close>

text \<open>
  C5, as stated, on a query with no catalog, a tool manager supplied and a provider whose
  first response requests a search all the same. The claim has one provider call, whose
  text is returned. The code does not look at the catalog when it decides on the tool
  round: it executes the search and calls the provider a second time, and the text
  returned is that of the second response.
\<close>

theorem no_catalog_counterexample:
  "generate_response library_types (scripted_generator (requesting [search_call]))
       ''What does lesson 3 cover?'' None None
       (Some (tools_knowing [''search_course_content''])) start =
     (Inr (Some ''Lesson 3 covers sorting algorithms, including quicksort.''),
      \<lparr>env = 3,
       trace =
         [Generate_content ''gemini'' (user_message ''What does lesson 3 cover?'')
            (base_config None),
          Execute_tool ''search_course_content''
            [(''course'', JStr ''X''), (''lesson'', JInt 3)],
          Generate_content ''gemini''
            (user_message ''What does lesson 3 cover?''
               @ [\<lparr>role = ''model'', parts = [Part_function_call search_call]\<rparr>,
                  \<lparr>role = ''user'',
                   parts = [Part_function_response ''search_course_content''
                              [(''result'',
                                JDict [(''tool'', JStr ''search_course_content''),
                                       (''course'', JStr ''X''), (''lesson'', JInt 3)])]]\<rparr>])
            ((base_config None)\<lparr>tools := None\<rparr>)]\<rparr>)"
proof -
  let ?tm = "tools_knowing [''search_course_content'']"
  have fcs: "function_calls (requesting [search_call]) = Some [search_call]" "[search_call] \<noteq> []"
    by (simp_all add: requesting_simps)
  have truth: "tool_manager_bool ?tm" by (simp add: tools_knowing_simps)
  have returns: "tools_return ?tm [search_call] (env \<lparr>env = 1, trace = tr\<rparr>)
      [JDict [(''tool'', JStr ''search_course_content''),
              (''course'', JStr ''X''), (''lesson'', JInt 3)]] 2" for tr :: "event list"
    by (simp add: call_simps tools_knowing_simps)
  from tool_round_returns [OF no_catalog scripted_first_call fcs truth returns,
        where ?r2.0 = "Inr (text_answer ''Lesson 3 covers sorting algorithms, including quicksort.'')"
          and ?w3.0 = 3]
  show ?thesis
    by (simp add: scripted_model trace_start scripted_later_call eval_nat_numeral
          requesting_simps text_answer_simps call_events result_part_def call_simps)
qed

text \<open>
  C5, amended: for every query invoked with no catalog (\<open>tools\<close> absent), the provider call
  carries a config without tools; when the response to it carries no tool-call request, or
  no tool manager is supplied (or a false one), the invocation issues exactly that one
  provider call and returns its text unchanged.
\<close>

theorem no_catalog_single_call:
  assumes call: "generate_content self (user_message q) (base_config h) s = (Inr response, s1)"
      and direct: "\<not> (truthy (function_calls response) \<and>
                       (\<exists>ex. tm = Some ex \<and> tool_manager_bool ex))"
  shows "generate_response types self q h None tm s = (Inr (text response), s1) \<and>
         issued s s1 = [Generate_content (model self) (user_message q) (base_config h)] \<and>
         tools (base_config h) = None"
  using generate_response_direct [OF no_catalog call direct] issued_first [OF call]
  by (simp add: base_config_def)

text \<open>
  The amended C5 on the question about recursion and a provider that answers with text,
  with a tool manager supplied.
\<close>

theorem no_catalog_single_call_witness:
  "generate_response library_types
       (scripted_generator (text_answer ''Recursion is a technique where a function calls itself.''))
       ''What is recursion?'' None None (Some (tools_knowing [''search_course_content''])) start =
     (Inr (Some ''Recursion is a technique where a function calls itself.''),
      \<lparr>env = 1,
       trace = [Generate_content ''gemini'' (user_message ''What is recursion?'')
                  (base_config None)]\<rparr>) \<and>
   tools (base_config None) = None"
proof -
  let ?first = "text_answer ''Recursion is a technique where a function calls itself.''"
  have direct: "\<not> (truthy (function_calls ?first) \<and>
      (\<exists>ex. Some (tools_knowing [''search_course_content'']) = Some ex \<and> tool_manager_bool ex))"
    by (simp add: text_answer_simps)
  from no_catalog_single_call [OF scripted_first_call direct, where types = library_types]
  show ?thesis by (simp add: text_answer_simps)
qed

text \<open>
  C7, as stated, on a catalog that is supplied and empty: the claim attaches the catalog's
  tools to the first call whenever a catalog is supplied; the code sends the first call
  with no tools at all, as it does without a catalog.
\<close>

theorem empty_catalog_counterexample:
  "generate_response library_types
       (scripted_generator (text_answer ''Recursion is a technique where a function calls itself.''))
       ''What is recursion?'' None (Some []) None start =
     (Inr (Some ''Recursion is a technique where a function calls itself.''),
      \<lparr>env = 1,
       trace = [Generate_content ''gemini'' (user_message ''What is recursion?'')
                  (base_config None)]\<rparr>) \<and>
   tools (base_config None) = None"
  using generate_response_direct [OF empty_catalog scripted_first_call,
        of "text_answer ''Recursion is a technique where a function calls itself.''" None]
  by (simp add: text_answer_simps base_config_def)

text \<open>
  C7, amended: for every invocation that reaches its first provider call, that call is the
  first thing the invocation issues, it carries the user's query, and its config has the
  temperature 0, the cap of 800 output tokens, and tools attached if and only if the catalog
  supplied is not empty (an empty catalog is treated as an absent one). The tools attached
  are one \<open>Tool\<close> with one declaration per definition, in the catalog's order: the i-th
  declaration is what the library's constructor returned for the name, the description and
  the parameter schema of the i-th definition, handed to it unchanged.
\<close>

theorem first_call_config:
  assumes run: "generate_response types self q h tds tm s = (res, s')"
      and first: "provider_configs (issued s s') = cfg # rest"
  shows "(\<exists>evs. issued s s' = Generate_content (model self) (user_message q) cfg # evs) \<and>
         temperature cfg = 0 \<and> max_output_tokens cfg = 800 \<and>
         (tools cfg \<noteq> None \<longleftrightarrow> truthy tds) \<and>
         (\<forall>ts. tds = Some ts \<and> ts \<noteq> [] \<longrightarrow>
            (\<exists>decls. tools cfg = Some [Tool decls] \<and> length decls = length ts \<and>
               (\<forall>i<length ts. \<exists>n d p.
                  getitem (ts ! i) ''name'' = Inr n \<and>
                  getitem (ts ! i) ''description'' = Inr d \<and>
                  getitem (ts ! i) ''parameters'' = Inr p \<and>
                  FunctionDeclaration types n d p = Inr (decls ! i))))"
proof -
  note config = first_config [OF run first]
  have "\<exists>evs. issued s s' = Generate_content (model self) (user_message q) cfg # evs"
    using run
  proof (cases rule: generate_response_cases)
    case (config_failure e)
    with config show ?thesis by simp
  next
    case (provider_failure config e)
    with config issued_first [OF provider_failure(2)] show ?thesis by simp
  next
    case (direct config response)
    with config issued_first [OF direct(2)] show ?thesis by simp
  next
    case (tool_failure config response s1 ex fcs e)
    with config issued_tool_failure [OF tool_failure(2,7)] show ?thesis by auto
  next
    case (follow_up config response s1 ex fcs ps s2 r2)
    with config issued_follow_up [OF follow_up(2,7,8)] show ?thesis by simp
  qed
  moreover have "\<exists>decls. tools cfg = Some [Tool decls] \<and> length decls = length ts \<and>
               (\<forall>i<length ts. \<exists>n d p.
                  getitem (ts ! i) ''name'' = Inr n \<and>
                  getitem (ts ! i) ''description'' = Inr d \<and>
                  getitem (ts ! i) ''parameters'' = Inr p \<and>
                  FunctionDeclaration types n d p = Inr (decls ! i))"
    if "tds = Some ts \<and> ts \<noteq> []" for ts
    using that config by (intro add_tools_declarations [of types ts h cfg]) simp_all
  ultimately show ?thesis
    using add_tools_config [OF config] by blast
qed

text \<open>
  The amended C7 on the lesson question with the catalog of the search tool and the
  constructor that checks and normalises: the declaration attached is the constructor's,
  with the schema's type in capitals.
\<close>

theorem first_call_config_witness:
  "hd (provider_configs
     (issued start
        (snd (generate_response library_types (scripted_generator (requesting [search_call]))
                ''What does lesson 3 cover?'' None (Some [search_tool]) None start))))
     = search_config \<and>
   temperature search_config = 0 \<and> max_output_tokens search_config = 800 \<and>
   (\<exists>decls. tools search_config = Some [Tool decls] \<and> length decls = 1 \<and>
      FunctionDeclaration library_types (JStr ''search_course_content'')
        (JStr ''Search course materials'') (JDict [(''type'', JStr ''object'')])
        = Inr (decls ! 0))"
proof -
  let ?q = "''What does lesson 3 cover?''"
  let ?self = "scripted_generator (requesting [search_call])"
  have run: "generate_response library_types ?self ?q None (Some [search_tool]) None start =
      (Inr None, \<lparr>env = 1, trace = [Generate_content ''gemini'' (user_message ?q) search_config]\<rparr>)"
    using generate_response_direct [OF search_tools scripted_first_call,
        of "requesting [search_call]" None]
    by (simp add: requesting_simps)
  have first: "provider_configs (issued start
      \<lparr>env = 1, trace = [Generate_content ''gemini'' (user_message ?q) search_config]\<rparr>)
      = search_config # []"
    by (simp add: issued_def trace_start)
  from first_call_config [OF run first, THEN conjunct2, THEN conjunct2, THEN conjunct2,
      THEN conjunct2, THEN spec, of "[search_tool]"]
  have "\<exists>decls. tools search_config = Some [Tool decls] \<and> length decls = 1 \<and>
      (\<exists>n d p. getitem search_tool ''name'' = Inr n \<and>
         getitem search_tool ''description'' = Inr d \<and>
         getitem search_tool ''parameters'' = Inr p \<and>
         FunctionDeclaration library_types n d p = Inr (decls ! 0))"
    by simp
  then have "\<exists>decls. tools search_config = Some [Tool decls] \<and> length decls = 1 \<and>
      FunctionDeclaration library_types (JStr ''search_course_content'')
        (JStr ''Search course materials'') (JDict [(''type'', JStr ''object'')])
        = Inr (decls ! 0)"
    by (auto simp: getitem_def search_tool_def)
  with run first first_call_config [OF run first] show ?thesis
    by simp
qed


end
